theory Spec2Isabelle
  imports Complex_Main
begin

section \<open>qbittorrent-automate: data model\<close>

text \<open>
  The development embeds \<^verbatim>\<open>src/qbittorrent-automate/main.py\<close>.

  Python exceptions are values of \<open>exn\<close>; a computation that may raise returns
  \<open>exn + 'a\<close> with \<open>Inl\<close> the raised exception. \<open>LoginFailed\<close> is the exception class
  of that name imported from the client library; \<open>APIError\<close> stands for every other
  exception that the library may raise.
\<close>

datatype exn =
    KeyError string
  | AttributeError string
  | ValueError string
  | OverflowError string
  | ZeroDivisionError string
  | LoginFailed string
  | APIError string

subsection \<open>Python numbers\<close>

text \<open>
  A number is a Python \<^verbatim>\<open>int\<close> or \<^verbatim>\<open>float\<close>. A finite one is given by its exact value; the
  three other floats are \<open>PosInf\<close>, \<open>NegInf\<close> and \<open>NaN\<close> (which \<^verbatim>\<open>float('inf')\<close>,
  \<^verbatim>\<open>float('nan')\<close> and the JSON decoder can produce). \<open>py_ge\<close> is \<^verbatim>\<open>>=\<close> on numbers: exact
  on finite values, also between an int and a float, and false as soon as one side is NaN.
\<close>

datatype pynum = Fin rat | PosInf | NegInf | NaN

fun py_ge :: "pynum \<Rightarrow> pynum \<Rightarrow> bool" where
  "py_ge NaN _ = False"
| "py_ge _ NaN = False"
| "py_ge PosInf _ = True"
| "py_ge _ NegInf = True"
| "py_ge NegInf _ = False"
| "py_ge _ PosInf = False"
| "py_ge (Fin a) (Fin b) = (b \<le> a)"

text \<open>
  True division of two ints, \<^verbatim>\<open>a / b\<close>, gives the float (IEEE binary64) nearest to the exact
  quotient, ties going to the even mantissa, and raises \<open>OverflowError\<close> when that float
  would not be finite. \<open>bit_length\<close> is \<^verbatim>\<open>int.bit_length\<close> of a non-negative int, \<open>pow2 k\<close>
  is \<open>2\<close> to the power \<open>k\<close>, \<open>float_exponent n d\<close> is the \<open>e\<close> with
  \<open>2^e \<le> n/d < 2^(e+1)\<close>, and
  \<open>float_mantissa n d p\<close> is \<open>n / (d * 2^p)\<close> rounded to an integer, half to even. The unit
  in the last place is \<open>2^p\<close> with \<open>p = e - 52\<close>, and not below \<open>-1074\<close> (subnormal
  numbers).
\<close>

function bit_length :: "int \<Rightarrow> nat" where
  "bit_length n = (if n \<le> 0 then 0 else Suc (bit_length (n div 2)))"
  by auto
termination
  by (relation "measure nat") auto

declare bit_length.simps [simp del]

definition pow2 :: "int \<Rightarrow> rat" where
  "pow2 k = (if 0 \<le> k then 2 ^ nat k else 1 / 2 ^ nat (- k))"

definition round_half_even :: "int \<Rightarrow> int \<Rightarrow> int" where
  "round_half_even n d =
     (let f = n div d; r = n mod d
      in if 2 * r < d then f else if d < 2 * r then f + 1 else if even f then f else f + 1)"

definition float_exponent :: "int \<Rightarrow> int \<Rightarrow> int" where
  "float_exponent n d =
     (let k = int (bit_length n) - int (bit_length d)
      in if pow2 k \<le> of_int n / of_int d then k else k - 1)"

definition float_mantissa :: "int \<Rightarrow> int \<Rightarrow> int \<Rightarrow> int" where
  "float_mantissa n d p =
     (if 0 \<le> p then round_half_even n (d * 2 ^ nat p) else round_half_even (n * 2 ^ nat (- p)) d)"

definition truediv :: "int \<Rightarrow> int \<Rightarrow> exn + pynum" where
  "truediv a b =
     (if b = 0 then Inl (ZeroDivisionError ''division by zero'')
      else if a = 0 then Inr (Fin 0)
      else
        (let n = \<bar>a\<bar>; d = \<bar>b\<bar>;
             p = max (float_exponent n d - 52) (- 1074);
             y = of_int (float_mantissa n d p) * pow2 p
         in if pow2 1024 \<le> y
            then Inl (OverflowError ''integer division result too large for a float'')
            else Inr (Fin (if (a < 0) \<noteq> (b < 0) then - y else y))))"

text \<open>
  Formatting a number with \<^verbatim>\<open>:.2f\<close> converts an int to a float first and raises
  \<open>OverflowError\<close> when the int rounds to a float that is not finite, that is from
  \<open>2^1024 - 2^970\<close> on. Every finite float is below that bound, and the other floats
  format as \<^verbatim>\<open>inf\<close> and \<^verbatim>\<open>nan\<close>.
\<close>

fun format_overflows :: "pynum \<Rightarrow> bool" where
  "format_overflows (Fin q) = (pow2 1024 - pow2 970 \<le> \<bar>q\<bar>)"
| "format_overflows _ = False"

text \<open>
  A torrent is the dictionary returned by the client library. The source reads the keys
  \<^verbatim>\<open>name\<close>, \<^verbatim>\<open>hash\<close>, \<^verbatim>\<open>tags\<close>, \<^verbatim>\<open>ratio\<close> and \<^verbatim>\<open>seeding_time\<close>; a field is \<open>None\<close> when
  the key is absent, so that \<^verbatim>\<open>torrent['ratio']\<close> can raise \<open>KeyError\<close> and
  \<^verbatim>\<open>torrent.get('tags', '')\<close> can fall back to its default. The ratio is a number, the
  seeding time an int of seconds.
\<close>

record torrent =
  t_name :: "string option"
  t_hash :: "string option"
  t_tags :: "string option"
  t_ratio :: "pynum option"
  t_seeding_time :: "int option"

text \<open>The dictionary \<^verbatim>\<open>qb_config\<close>; again \<open>None\<close> is an absent key (or a \<^verbatim>\<open>None\<close> value).\<close>

record qb_config =
  c_url :: "string option"
  c_port :: "string option"
  c_username :: "string option"
  c_password :: "string option"
  c_ratio_limit :: "pynum option"
  c_seeding_time_limit :: "pynum option"
  c_delete_files :: "bool option"
  c_exclude_tags :: "string list option"
  c_include_tags :: "string list option"

text \<open>The client object, built from host, port, username and password.\<close>

datatype client = Client string string string string

text \<open>The attributes of a \<^verbatim>\<open>QBittorrentAutoMate\<close> instance.\<close>

record automate =
  qb_config :: qb_config
  qb :: "client option"
  ratio_limit :: pynum
  seeding_time_limit :: pynum
  exclude_tags :: "string list"
  include_tags :: "string list"

text \<open>
  Everything the program does to the outside is recorded in a trace: the records handed
  to the logger (with their level), the traceback printed to standard error, and the
  calls made to the client library and to the scheduler.
\<close>

datatype level = INFO | ERROR

datatype log_msg =
    MissingCredentials
  | Connecting string string string
  | ConnectedVersion string
  | ConnectFailed exn
  | MeetsDeleteCondition string pynum pynum
  | ListFailed exn
  | DeletedTorrent string bool
  | DeleteFailed string exn
  | StartCheck
  | FoundCompleted nat
  | CleanupDone nat
  | CleanupError exn
  | ServiceStarting
  | InitialConnectFailed
  | FirstCheck
  | ServiceStarted int
  | StopSignal
  | SchedulerError exn

datatype api_call =
    NewClient string string string string
  | AuthLogIn
  | AppVersion
  | TorrentsInfo
  | TorrentsDelete bool string
  | AddJob int
  | SchedulerStart
  | SchedulerShutdown

datatype event =
    Log level log_msg
  | PrintExc exn
  | Call api_call

text \<open>
  The remote service is an arbitrary deterministic machine over a state \<open>'w\<close>: each
  library call returns or raises and moves the remote state.
\<close>

record 'w api =
  api_Client :: "string \<Rightarrow> string \<Rightarrow> string \<Rightarrow> string \<Rightarrow> 'w \<Rightarrow> (exn + client) \<times> 'w"
  api_auth_log_in :: "client \<Rightarrow> 'w \<Rightarrow> (exn + unit) \<times> 'w"
  api_app_version :: "client \<Rightarrow> 'w \<Rightarrow> (exn + string) \<times> 'w"
  api_torrents_info :: "client \<Rightarrow> 'w \<Rightarrow> (exn + torrent list) \<times> 'w"
  api_torrents_delete :: "client \<Rightarrow> bool \<Rightarrow> string \<Rightarrow> 'w \<Rightarrow> (exn + unit) \<times> 'w"

record 'w state =
  this :: automate
  world :: 'w
  trace :: "event list"

definition emit :: "event \<Rightarrow> 'w state \<Rightarrow> 'w state" where
  "emit e s = s\<lparr>trace := trace s @ [e]\<rparr>"

text \<open>\<^verbatim>\<open>QBittorrentAutoMate.__init__\<close>\<close>

definition QBittorrentAutoMate_init :: "qb_config \<Rightarrow> automate" where
  "QBittorrentAutoMate_init cfg =
     \<lparr>qb_config = cfg,
      qb = None,
      ratio_limit = (case c_ratio_limit cfg of None \<Rightarrow> Fin 2 | Some v \<Rightarrow> v),
      seeding_time_limit = (case c_seeding_time_limit cfg of None \<Rightarrow> Fin 120 | Some v \<Rightarrow> v),
      exclude_tags = (case c_exclude_tags cfg of None \<Rightarrow> [] | Some v \<Rightarrow> v),
      include_tags = (case c_include_tags cfg of None \<Rightarrow> [] | Some v \<Rightarrow> v)\<rparr>"

section \<open>The retention decision\<close>

text \<open>
  \<^verbatim>\<open>QBittorrentAutoMate.should_delete_torrent\<close> (lines 94 to 114). Line 107 divides before
  anything is compared, so its \<open>OverflowError\<close> comes first; the log line of line 111
  reads the name and then formats the ratio.
\<close>

definition should_delete_torrent :: "torrent \<Rightarrow> 'w state \<Rightarrow> (exn + bool) \<times> 'w state" where
  "should_delete_torrent torrent s =
     (let self = this s;
          tags = (case t_tags torrent of None \<Rightarrow> [] | Some v \<Rightarrow> v)
      in
      if tags \<in> set (exclude_tags self) then (Inr False, s)
      else if include_tags self \<noteq> [] \<and> tags \<notin> set (include_tags self) then (Inr False, s)
      else
        (case t_ratio torrent of
           None \<Rightarrow> (Inl (KeyError ''ratio''), s)
         | Some ratio \<Rightarrow>
            (case t_seeding_time torrent of
               None \<Rightarrow> (Inl (KeyError ''seeding_time''), s)
             | Some secs \<Rightarrow>
                (case truediv secs 60 of
                   Inl e \<Rightarrow> (Inl e, s)
                 | Inr seeding_time \<Rightarrow>
                    if py_ge ratio (ratio_limit self) \<or> py_ge seeding_time (seeding_time_limit self)
                    then
                      (case t_name torrent of
                         None \<Rightarrow> (Inl (KeyError ''name''), s)
                       | Some n \<Rightarrow>
                          if format_overflows ratio
                          then (Inl (OverflowError ''int too large to convert to float''), s)
                          else (Inr True, emit (Log INFO (MeetsDeleteCondition n ratio seeding_time)) s))
                    else (Inr False, s)))))"

section \<open>Calls to the client library\<close>

text \<open>Each call is recorded in the trace before its outcome is used.\<close>

definition call_Client ::
  "'w api \<Rightarrow> string \<Rightarrow> string \<Rightarrow> string \<Rightarrow> string \<Rightarrow> 'w state \<Rightarrow> (exn + client) \<times> 'w state" where
  "call_Client api host port username password s =
     (case api_Client api host port username password (world s) of
        (r, w') \<Rightarrow> (r, s\<lparr>world := w', trace := trace s @ [Call (NewClient host port username password)]\<rparr>))"

definition call_auth_log_in :: "'w api \<Rightarrow> client \<Rightarrow> 'w state \<Rightarrow> (exn + unit) \<times> 'w state" where
  "call_auth_log_in api c s =
     (case api_auth_log_in api c (world s) of
        (r, w') \<Rightarrow> (r, s\<lparr>world := w', trace := trace s @ [Call AuthLogIn]\<rparr>))"

definition call_app_version :: "'w api \<Rightarrow> client \<Rightarrow> 'w state \<Rightarrow> (exn + string) \<times> 'w state" where
  "call_app_version api c s =
     (case api_app_version api c (world s) of
        (r, w') \<Rightarrow> (r, s\<lparr>world := w', trace := trace s @ [Call AppVersion]\<rparr>))"

definition call_torrents_info :: "'w api \<Rightarrow> client \<Rightarrow> 'w state \<Rightarrow> (exn + torrent list) \<times> 'w state" where
  "call_torrents_info api c s =
     (case api_torrents_info api c (world s) of
        (r, w') \<Rightarrow> (r, s\<lparr>world := w', trace := trace s @ [Call TorrentsInfo]\<rparr>))"

definition call_torrents_delete ::
  "'w api \<Rightarrow> client \<Rightarrow> bool \<Rightarrow> string \<Rightarrow> 'w state \<Rightarrow> (exn + unit) \<times> 'w state" where
  "call_torrents_delete api c delete_files torrent_hash s =
     (case api_torrents_delete api c delete_files torrent_hash (world s) of
        (r, w') \<Rightarrow>
          (r, s\<lparr>world := w', trace := trace s @ [Call (TorrentsDelete delete_files torrent_hash)]\<rparr>))"

section \<open>Connecting\<close>

text \<open>
  The inner \<^verbatim>\<open>try\<close> of \<^verbatim>\<open>connect_qbittorrent\<close> (lines 84 and 85): log in, then ask for the
  version and log it.
\<close>

definition login_body :: "'w api \<Rightarrow> client \<Rightarrow> 'w state \<Rightarrow> (exn + unit) \<times> 'w state" where
  "login_body api c s =
     (case call_auth_log_in api c s of
        (Inl e, s1) \<Rightarrow> (Inl e, s1)
      | (Inr _, s1) \<Rightarrow>
         (case call_app_version api c s1 of
            (Inl e, s2) \<Rightarrow> (Inl e, s2)
          | (Inr v, s2) \<Rightarrow> (Inr (), emit (Log INFO (ConnectedVersion v)) s2)))"

fun is_LoginFailed :: "exn \<Rightarrow> bool" where
  "is_LoginFailed (LoginFailed _) = True"
| "is_LoginFailed _ = False"

text \<open>
  The outer \<^verbatim>\<open>try\<close> (lines 76 to 88). The log line reads the keys \<^verbatim>\<open>url\<close>, \<^verbatim>\<open>port\<close> and
  \<^verbatim>\<open>username\<close> by subscript; the handle is assigned as soon as the constructor returns,
  before the login is attempted.
\<close>

definition connect_body :: "'w api \<Rightarrow> 'w state \<Rightarrow> (exn + bool) \<times> 'w state" where
  "connect_body api s =
     (let cfg = qb_config (this s) in
      case c_url cfg of
        None \<Rightarrow> (Inl (KeyError ''url''), s)
      | Some url \<Rightarrow>
      (case c_port cfg of
        None \<Rightarrow> (Inl (KeyError ''port''), s)
      | Some port \<Rightarrow>
      (case c_username cfg of
        None \<Rightarrow> (Inl (KeyError ''username''), s)
      | Some username \<Rightarrow>
      (let s1 = emit (Log INFO (Connecting url port username)) s in
       case c_password cfg of
        None \<Rightarrow> (Inl (KeyError ''password''), s1)
      | Some password \<Rightarrow>
      (case call_Client api url port username password s1 of
        (Inl e, s2) \<Rightarrow> (Inl e, s2)
      | (Inr c, s2) \<Rightarrow>
         (let s3 = s2\<lparr>this := (this s2)\<lparr>qb := Some c\<rparr>\<rparr> in
          case login_body api c s3 of
            (Inr _, s4) \<Rightarrow> (Inr True, s4)
          | (Inl e, s4) \<Rightarrow>
             if is_LoginFailed e then (Inr True, emit (Log ERROR (ConnectFailed e)) s4)
             else (Inl e, s4)))))))"

text \<open>\<^verbatim>\<open>QBittorrentAutoMate.connect_qbittorrent\<close> (lines 67 to 92).\<close>

definition connect_qbittorrent :: "'w api \<Rightarrow> 'w state \<Rightarrow> bool \<times> 'w state" where
  "connect_qbittorrent api s =
     (let cfg = qb_config (this s) in
      if c_url cfg = None \<or> c_username cfg = None \<or> c_password cfg = None
      then (False, emit (Log ERROR MissingCredentials) s)
      else
        (case connect_body api s of
           (Inr b, s') \<Rightarrow> (b, s')
         | (Inl e, s') \<Rightarrow> (False, emit (Log ERROR (ConnectFailed e)) (emit (PrintExc e) s'))))"

section \<open>Listing and deleting\<close>

text \<open>\<^verbatim>\<open>QBittorrentAutoMate.get_completed_torrents\<close> (lines 116 to 123).\<close>

definition get_completed_torrents :: "'w api \<Rightarrow> 'w state \<Rightarrow> torrent list \<times> 'w state" where
  "get_completed_torrents api s =
     (case qb (this s) of
        None \<Rightarrow> ([], emit (Log ERROR (ListFailed (AttributeError ''torrents_info''))) s)
      | Some c \<Rightarrow>
         (case call_torrents_info api c s of
            (Inl e, s1) \<Rightarrow> ([], emit (Log ERROR (ListFailed e)) s1)
          | (Inr ts, s1) \<Rightarrow> (ts, s1)))"

text \<open>The \<^verbatim>\<open>try\<close> block of \<^verbatim>\<open>delete_torrent\<close> (lines 128 to 134).\<close>

definition delete_body :: "'w api \<Rightarrow> torrent \<Rightarrow> bool \<Rightarrow> 'w state \<Rightarrow> (exn + bool) \<times> 'w state" where
  "delete_body api torrent delete_files s =
     (case t_name torrent of
        None \<Rightarrow> (Inl (KeyError ''name''), s)
      | Some torrent_name \<Rightarrow>
      (case t_hash torrent of
        None \<Rightarrow> (Inl (KeyError ''hash''), s)
      | Some torrent_hash \<Rightarrow>
      (case qb (this s) of
        None \<Rightarrow> (Inl (AttributeError ''torrents_delete''), s)
      | Some c \<Rightarrow>
      (case call_torrents_delete api c delete_files torrent_hash s of
        (Inl e, s1) \<Rightarrow> (Inl e, s1)
      | (Inr _, s1) \<Rightarrow> (Inr True, emit (Log INFO (DeletedTorrent torrent_name delete_files)) s1)))))"

text \<open>
  \<^verbatim>\<open>QBittorrentAutoMate.delete_torrent\<close> (lines 125 to 137). The handler reads
  \<^verbatim>\<open>torrent['name']\<close> again, so it raises itself when that key is absent.
\<close>

definition delete_torrent :: "'w api \<Rightarrow> torrent \<Rightarrow> bool \<Rightarrow> 'w state \<Rightarrow> (exn + bool) \<times> 'w state" where
  "delete_torrent api torrent delete_files s =
     (case delete_body api torrent delete_files s of
        (Inr b, s1) \<Rightarrow> (Inr b, s1)
      | (Inl e, s1) \<Rightarrow>
         (case t_name torrent of
            None \<Rightarrow> (Inl (KeyError ''name''), s1)
          | Some n \<Rightarrow> (Inr False, emit (Log ERROR (DeleteFailed n e)) s1)))"

section \<open>One cleanup pass\<close>

text \<open>
  The \<^verbatim>\<open>for\<close> loop of \<^verbatim>\<open>cleanup_torrents\<close> (lines 152 to 155), with \<^verbatim>\<open>deleted_count\<close> as
  accumulator. An exception leaves the loop.
\<close>

fun cleanup_loop :: "'w api \<Rightarrow> torrent list \<Rightarrow> nat \<Rightarrow> 'w state \<Rightarrow> (exn + nat) \<times> 'w state" where
  "cleanup_loop api [] deleted_count s = (Inr deleted_count, s)"
| "cleanup_loop api (torrent # rest) deleted_count s =
     (case should_delete_torrent torrent s of
        (Inl e, s1) \<Rightarrow> (Inl e, s1)
      | (Inr False, s1) \<Rightarrow> cleanup_loop api rest deleted_count s1
      | (Inr True, s1) \<Rightarrow>
         (case delete_torrent api torrent
                 (case c_delete_files (qb_config (this s1)) of None \<Rightarrow> False | Some b \<Rightarrow> b) s1 of
            (Inl e, s2) \<Rightarrow> (Inl e, s2)
          | (Inr True, s2) \<Rightarrow> cleanup_loop api rest (deleted_count + 1) s2
          | (Inr False, s2) \<Rightarrow> cleanup_loop api rest deleted_count s2))"

text \<open>The \<^verbatim>\<open>try\<close> block of \<^verbatim>\<open>cleanup_torrents\<close> (lines 148 to 157).\<close>

definition cleanup_body :: "'w api \<Rightarrow> 'w state \<Rightarrow> (exn + unit) \<times> 'w state" where
  "cleanup_body api s =
     (case get_completed_torrents api s of
        (completed_torrents, s1) \<Rightarrow>
          (let s2 = emit (Log INFO (FoundCompleted (length completed_torrents))) s1 in
           case cleanup_loop api completed_torrents 0 s2 of
             (Inl e, s3) \<Rightarrow> (Inl e, s3)
           | (Inr deleted_count, s3) \<Rightarrow> (Inr (), emit (Log INFO (CleanupDone deleted_count)) s3)))"

text \<open>
  \<^verbatim>\<open>QBittorrentAutoMate.cleanup_torrents\<close> (lines 139 to 160). It returns nothing; what
  a pass did is in the trace.
\<close>

definition cleanup_torrents :: "'w api \<Rightarrow> 'w state \<Rightarrow> 'w state" where
  "cleanup_torrents api s =
     (case (if qb (this s) = None then connect_qbittorrent api s else (True, s)) of
        (False, s0) \<Rightarrow> s0
      | (True, s0) \<Rightarrow>
         (case cleanup_body api (emit (Log INFO StartCheck) s0) of
            (Inr _, s2) \<Rightarrow> s2
          | (Inl e, s2) \<Rightarrow> emit (Log ERROR (CleanupError e)) s2))"

section \<open>Loading the configuration\<close>

text \<open>
  The process environment is a map from variable names to values. Characters are the
  code points below 256; \<open>isspace\<close> lists those that \<^verbatim>\<open>str.strip\<close> removes in that range.
\<close>

definition getenv :: "(string \<rightharpoonup> string) \<Rightarrow> string \<Rightarrow> string \<Rightarrow> string" where
  "getenv environ key dflt = (case environ key of None \<Rightarrow> dflt | Some v \<Rightarrow> v)"

definition isspace :: "char \<Rightarrow> bool" where
  "isspace c = ((of_char c :: nat) \<in> {9, 10, 11, 12, 13, 28, 29, 30, 31, 32, 133, 160})"

definition strip :: "string \<Rightarrow> string" where
  "strip v = rev (dropWhile isspace (rev (dropWhile isspace v)))"

text \<open>\<^verbatim>\<open>str.split(sep)\<close> with a one-character separator: the empty string gives one empty piece.\<close>

fun split :: "char \<Rightarrow> string \<Rightarrow> string list" where
  "split sep [] = [Nil]"
| "split sep (c # cs) =
     (if c = sep then [] # split sep cs
      else (case split sep cs of [] \<Rightarrow> [c # Nil] | w # ws \<Rightarrow> (c # w) # ws))"

text \<open>
  \<^verbatim>\<open>str.lower\<close> on the code points below 256: the letters A to Z, and the accented capitals
  192 to 222 without the multiplication sign 215, move up by 32.
\<close>

definition lower_char :: "char \<Rightarrow> char" where
  "lower_char c =
     (let n = (of_char c :: nat) in
      if (65 \<le> n \<and> n \<le> 90) \<or> (192 \<le> n \<and> n \<le> 222 \<and> n \<noteq> 215) then char_of (n + 32) else c)"

definition lower :: "string \<Rightarrow> string" where
  "lower v = map lower_char v"

text \<open>The list comprehension of lines 174 to 177: split at commas, strip, keep the non-empty.\<close>

definition tag_list :: "string \<Rightarrow> string list" where
  "tag_list v = [strip cat. cat \<leftarrow> split (CHR '','') v, strip cat \<noteq> []]"

record scheduler_config =
  interval_minutes :: int

record config =
  qbittorrent :: qb_config
  scheduler :: scheduler_config

text \<open>
  \<^verbatim>\<open>load_config\<close> (lines 163 to 183). The builtins \<^verbatim>\<open>float\<close> and \<^verbatim>\<open>int\<close> are parameters:
  they return the number (for \<^verbatim>\<open>float\<close> possibly an infinity or NaN) or raise \<open>ValueError\<close>. The dictionary display evaluates its
  entries in order, so the first conversion that raises decides the exception.
\<close>

definition load_config ::
  "(string \<Rightarrow> exn + pynum) \<Rightarrow> (string \<Rightarrow> exn + int) \<Rightarrow> (string \<rightharpoonup> string) \<Rightarrow> exn + config" where
  "load_config py_float py_int environ =
     (case py_float (getenv environ ''RATIO_LIMIT'' ''2.0'') of
        Inl e \<Rightarrow> Inl e
      | Inr rl \<Rightarrow>
     (case py_float (getenv environ ''SEEDING_TIME_LIMIT'' ''120'') of
        Inl e \<Rightarrow> Inl e
      | Inr stl \<Rightarrow>
     (case py_int (getenv environ ''CHECK_INTERVAL'' ''60'') of
        Inl e \<Rightarrow> Inl e
      | Inr iv \<Rightarrow>
         Inr \<lparr>qbittorrent =
                \<lparr>c_url = Some (getenv environ ''QB_URL'' ''http://localhost''),
                 c_port = Some (getenv environ ''QB_PORT'' ''8080''),
                 c_username = Some (getenv environ ''QB_USERNAME'' ''admin''),
                 c_password = Some (getenv environ ''QB_PASSWORD'' ''adminadmin''),
                 c_ratio_limit = Some rl,
                 c_seeding_time_limit = Some stl,
                 c_delete_files = Some (lower (getenv environ ''DELETE_FILES'' ''false'') = ''true''),
                 c_exclude_tags = Some (tag_list (getenv environ ''EXCLUDE_TAGS'' [])),
                 c_include_tags = Some (tag_list (getenv environ ''INCLUDE_TAGS'' []))\<rparr>,
              scheduler = \<lparr>interval_minutes = iv\<rparr>\<rparr>)))"

section \<open>The scheduler and \<open>main\<close>\<close>

text \<open>
  \<^verbatim>\<open>scheduler.start()\<close> blocks in the scheduling library. What happens while it blocks is
  given from outside as a list of events: the interval elapsed (the library runs the job,
  \<^verbatim>\<open>cleanup_torrents\<close>), the operator interrupted the process, or the library raised.
  When the list is used up the call is still blocked, waiting for the next fire.
\<close>

datatype sched_event = IntervalElapsed | KeyboardInterrupt | SchedulerFault exn

datatype start_result = Blocked | Interrupted | Raised exn

fun scheduler_start :: "'w api \<Rightarrow> sched_event list \<Rightarrow> 'w state \<Rightarrow> start_result \<times> 'w state" where
  "scheduler_start api [] s = (Blocked, s)"
| "scheduler_start api (IntervalElapsed # evs) s = scheduler_start api evs (cleanup_torrents api s)"
| "scheduler_start api (KeyboardInterrupt # evs) s = (Interrupted, s)"
| "scheduler_start api (SchedulerFault e # evs) s = (Raised e, s)"

text \<open>
  How \<^verbatim>\<open>main\<close> ends: the configuration could not be loaded (the exception leaves
  \<^verbatim>\<open>main\<close>), the first connection failed, the scheduler was shut down, or \<^verbatim>\<open>main\<close> is still
  inside \<^verbatim>\<open>scheduler.start()\<close>.
\<close>

datatype exit = Crashed exn | ConnectGivenUp | Stopped | Waiting

text \<open>\<^verbatim>\<open>main\<close> (lines 186 to 228).\<close>

definition main ::
  "(string \<Rightarrow> exn + pynum) \<Rightarrow> (string \<Rightarrow> exn + int) \<Rightarrow> 'w api \<Rightarrow> (string \<rightharpoonup> string) \<Rightarrow>
   sched_event list \<Rightarrow> 'w \<Rightarrow> exit \<times> event list" where
  "main py_float py_int api environ evs w =
     (case load_config py_float py_int environ of
        Inl e \<Rightarrow> (Crashed e, [Log INFO ServiceStarting])
      | Inr config \<Rightarrow>
         (let qb_config = qbittorrent config;
              scheduler_config = scheduler config;
              cleaner = \<lparr>this = QBittorrentAutoMate_init qb_config, world = w,
                         trace = [Log INFO ServiceStarting]\<rparr>
          in
          case connect_qbittorrent api cleaner of
            (False, s1) \<Rightarrow> (ConnectGivenUp, trace (emit (Log ERROR InitialConnectFailed) s1))
          | (True, s1) \<Rightarrow>
             (let s2 = emit (Call (AddJob (interval_minutes scheduler_config))) s1;
                  s3 = cleanup_torrents api (emit (Log INFO FirstCheck) s2);
                  s4 = emit (Log INFO (ServiceStarted (interval_minutes scheduler_config))) s3
              in
              case scheduler_start api evs (emit (Call SchedulerStart) s4) of
                (Blocked, s5) \<Rightarrow> (Waiting, trace s5)
              | (Interrupted, s5) \<Rightarrow>
                  (Stopped, trace (emit (Call SchedulerShutdown) (emit (Log INFO StopSignal) s5)))
              | (Raised e, s5) \<Rightarrow>
                  (Stopped,
                   trace (emit (Call SchedulerShutdown) (emit (Log ERROR (SchedulerError e)) s5))))))"

section \<open>Reading a trace\<close>

fun is_error :: "event \<Rightarrow> bool" where
  "is_error (Log ERROR _) = True"
| "is_error _ = False"

fun is_delete_call :: "event \<Rightarrow> bool" where
  "is_delete_call (Call (TorrentsDelete _ _)) = True"
| "is_delete_call _ = False"

fun is_listing_call :: "event \<Rightarrow> bool" where
  "is_listing_call (Call TorrentsInfo) = True"
| "is_listing_call _ = False"

fun is_pass_start :: "event \<Rightarrow> bool" where
  "is_pass_start (Log INFO StartCheck) = True"
| "is_pass_start _ = False"

text \<open>The tag string that \<^verbatim>\<open>torrent.get('tags', '')\<close> yields.\<close>

definition tags_of :: "torrent \<Rightarrow> string" where
  "tags_of torrent = (case t_tags torrent of None \<Rightarrow> [] | Some v \<Rightarrow> v)"

text \<open>The deletion requests of a trace, in order, with their \<^verbatim>\<open>delete_files\<close> flag.\<close>

fun delete_calls :: "event list \<Rightarrow> (bool \<times> string) list" where
  "delete_calls [] = []"
| "delete_calls (Call (TorrentsDelete df h) # es) = (df, h) # delete_calls es"
| "delete_calls (_ # es) = delete_calls es"

text \<open>What \<^verbatim>\<open>connect_qbittorrent\<close> can add to a trace, and what the loop over torrents can.\<close>

fun connect_event :: "event \<Rightarrow> bool" where
  "connect_event (Log ERROR MissingCredentials) = True"
| "connect_event (Log INFO (Connecting _ _ _)) = True"
| "connect_event (Log INFO (ConnectedVersion _)) = True"
| "connect_event (Log ERROR (ConnectFailed _)) = True"
| "connect_event (PrintExc _) = True"
| "connect_event (Call (NewClient _ _ _ _)) = True"
| "connect_event (Call AuthLogIn) = True"
| "connect_event (Call AppVersion) = True"
| "connect_event _ = False"

fun loop_event :: "event \<Rightarrow> bool" where
  "loop_event (Log INFO (MeetsDeleteCondition _ _ _)) = True"
| "loop_event (Log INFO (DeletedTorrent _ _)) = True"
| "loop_event (Log ERROR (DeleteFailed _ _)) = True"
| "loop_event (Call (TorrentsDelete _ _)) = True"
| "loop_event _ = False"

fun is_connect_failure :: "event \<Rightarrow> bool" where
  "is_connect_failure (Log ERROR MissingCredentials) = True"
| "is_connect_failure (Log ERROR (ConnectFailed _)) = True"
| "is_connect_failure _ = False"

text \<open>What a pass can add to a trace after it has logged its start and asked for the listing.\<close>

fun pass_event :: "event \<Rightarrow> bool" where
  "pass_event (Log ERROR (ListFailed _)) = True"
| "pass_event (Log INFO (FoundCompleted _)) = True"
| "pass_event (Log INFO (CleanupDone _)) = True"
| "pass_event (Log ERROR (CleanupError _)) = True"
| "pass_event e = loop_event e"

section \<open>Concrete configurations, torrents and services\<close>

text \<open>The default policy: ratio limit 2, seeding limit 120 minutes, no tag lists.\<close>

definition demo_config :: "string list \<Rightarrow> string list \<Rightarrow> qb_config" where
  "demo_config excl incl =
     \<lparr>c_url = Some ''http://localhost'', c_port = Some ''8080'', c_username = Some ''admin'',
      c_password = Some ''adminadmin'', c_ratio_limit = Some (Fin 2), c_seeding_time_limit = Some (Fin 120),
      c_delete_files = Some False, c_exclude_tags = Some excl, c_include_tags = Some incl\<rparr>"

definition demo_state :: "qb_config \<Rightarrow> client option \<Rightarrow> nat state" where
  "demo_state cfg handle =
     \<lparr>this = (QBittorrentAutoMate_init cfg)\<lparr>qb := handle\<rparr>, world = 0, trace = []\<rparr>"

definition demo_torrent :: "string \<Rightarrow> string \<Rightarrow> rat \<Rightarrow> int \<Rightarrow> torrent" where
  "demo_torrent h tg r secs =
     \<lparr>t_name = Some (''torrent-'' @ h), t_hash = Some h, t_tags = Some tg, t_ratio = Some (Fin r),
      t_seeding_time = Some secs\<rparr>"

definition demo_client :: client where
  "demo_client = Client ''http://localhost'' ''8080'' ''admin'' ''adminadmin''"

text \<open>
  A service whose state counts the calls made to it: the login and the listing answer as
  given, and deleting the torrent with hash \<open>bad\<close> raises.
\<close>

definition demo_api :: "(exn + unit) \<Rightarrow> (exn + torrent list) \<Rightarrow> string \<Rightarrow> nat api" where
  "demo_api login listing bad =
     \<lparr>api_Client = (\<lambda>host port username password w. (Inr (Client host port username password), w + 1)),
      api_auth_log_in = (\<lambda>c w. (login, w + 1)),
      api_app_version = (\<lambda>c w. (Inr ''v5.0.0'', w + 1)),
      api_torrents_info = (\<lambda>c w. (listing, w + 1)),
      api_torrents_delete =
        (\<lambda>c df h w. (if h = bad then Inl (APIError ''not found'') else Inr (), w + 1))\<rparr>"

text \<open>An environment with tag lists that contain blank and empty entries, and conversions
  that know the literals used here.\<close>

definition demo_environ :: "string \<rightharpoonup> string" where
  "demo_environ = [''EXCLUDE_TAGS'' \<mapsto> ''movies, ,tv,'', ''INCLUDE_TAGS'' \<mapsto> '' keep ,,'']"

definition demo_float :: "string \<Rightarrow> exn + pynum" where
  "demo_float v =
     (if v = ''2.0'' then Inr (Fin 2) else if v = ''120'' then Inr (Fin 120) else Inl (ValueError v))"

text \<open>The float \<^verbatim>\<open>0.1\<close>, and a number of seconds whose sixtieth is too large for a float.\<close>

definition float_tenth :: rat where
  "float_tenth = 3602879701896397 / 36028797018963968"

definition huge_seconds :: int where
  "huge_seconds = 2 ^ 1030"

definition demo_int :: "string \<Rightarrow> exn + int" where
  "demo_int v = (if v = ''60'' then Inr 60 else Inl (ValueError v))"

text \<open>Three completed torrents that all meet the default policy.\<close>

definition demo_listing :: "torrent list" where
  "demo_listing =
     [demo_torrent ''a1'' [] (5/2) 3600, demo_torrent ''b2'' [] (1/2) 9000, demo_torrent ''c3'' ''tv'' 3 0]"

section \<open>Basic facts\<close>

lemma emit_fields [simp]:
  "this (emit e s) = this s" "world (emit e s) = world s" "trace (emit e s) = trace s @ [e]"
  by (simp_all add: emit_def)

lemma delete_calls_append [simp]: "delete_calls (xs @ ys) = delete_calls xs @ delete_calls ys"
  by (induction xs rule: delete_calls.induct) simp_all

lemma should_delete_cases:
  "should_delete_torrent t s = (Inr False, s)
   \<or> (\<exists>n r m. t_name t = Some n \<and>
         should_delete_torrent t s = (Inr True, emit (Log INFO (MeetsDeleteCondition n r m)) s))
   \<or> (\<exists>e. should_delete_torrent t s = (Inl e, s))"
  by (auto simp: should_delete_torrent_def Let_def split: option.split sum.split)

lemma should_delete_verdict_cong:
  assumes "ratio_limit (this s') = ratio_limit (this s)"
    and "seeding_time_limit (this s') = seeding_time_limit (this s)"
    and "exclude_tags (this s') = exclude_tags (this s)"
    and "include_tags (this s') = include_tags (this s)"
  shows "fst (should_delete_torrent t s') = fst (should_delete_torrent t s)"
  using assms by (simp add: should_delete_torrent_def Let_def split: option.split sum.split)

lemma delete_torrent_step:
  assumes "qb (this s) = Some c" and "t_name t = Some n" and "t_hash t = Some h"
  shows "delete_torrent api t df s =
     (case api_torrents_delete api c df h (world s) of
        (Inl e, w') \<Rightarrow>
          (Inr False, s\<lparr>world := w',
             trace := trace s @ [Call (TorrentsDelete df h), Log ERROR (DeleteFailed n e)]\<rparr>)
      | (Inr u, w') \<Rightarrow>
          (Inr True, s\<lparr>world := w',
             trace := trace s @ [Call (TorrentsDelete df h), Log INFO (DeletedTorrent n df)]\<rparr>))"
  using assms
  by (simp add: delete_torrent_def delete_body_def call_torrents_delete_def emit_def
      split: prod.split sum.split)

lemma cleanup_loop_candidates:
  assumes "qb (this s) = Some c"
    and "\<forall>w df h. fst (api_torrents_delete api c df h w) = (if h = hk then Inl e else Inr ())"
    and "\<forall>t\<in>set ts. fst (should_delete_torrent t s) = Inr True \<and> t_hash t \<noteq> None"
  shows "\<exists>s' evs. cleanup_loop api ts k s =
            (Inr (k + length (filter (\<lambda>t. t_hash t \<noteq> Some hk) ts)), s')
          \<and> this s' = this s \<and> trace s' = trace s @ evs
          \<and> delete_calls evs = map (\<lambda>t. (case c_delete_files (qb_config (this s)) of None \<Rightarrow> False | Some b \<Rightarrow> b, the (t_hash t))) ts
          \<and> filter is_error evs =
              map (\<lambda>t. Log ERROR (DeleteFailed (the (t_name t)) e)) (filter (\<lambda>t. t_hash t = Some hk) ts)"
  using assms
proof (induction ts arbitrary: k s)
  case Nil
  then show ?case by simp
next
  case (Cons t ts)
  let ?df = "case c_delete_files (qb_config (this s)) of None \<Rightarrow> False | Some b \<Rightarrow> b"
  from Cons.prems(3) have verdict: "fst (should_delete_torrent t s) = Inr True"
    and "t_hash t \<noteq> None" by simp_all
  then obtain h where h: "t_hash t = Some h" by auto
  from verdict should_delete_cases [of t s] obtain n r m where n: "t_name t = Some n"
    and sd: "should_delete_torrent t s = (Inr True, emit (Log INFO (MeetsDeleteCondition n r m)) s)"
    by auto
  let ?s1 = "emit (Log INFO (MeetsDeleteCondition n r m)) s"
  obtain res w' where call: "api_torrents_delete api c ?df h (world s) = (res, w')"
    by (cases "api_torrents_delete api c ?df h (world s)")
  with Cons.prems(2) have res: "res = (if h = hk then Inl e else Inr ())"
    by (metis fst_conv)
  have q1: "qb (this ?s1) = Some c" using Cons.prems(1) by simp
  show ?case
  proof (cases "h = hk")
    case True
    let ?s2 = "?s1\<lparr>world := w',
        trace := trace ?s1 @ [Call (TorrentsDelete ?df h), Log ERROR (DeleteFailed n e)]\<rparr>"
    have del: "delete_torrent api t ?df ?s1 = (Inr False, ?s2)"
      using delete_torrent_step [OF q1 n h, of api ?df] call res True by simp
    have step: "cleanup_loop api (t # ts) k s = cleanup_loop api ts k ?s2"
      using sd del by simp
    have pre: "\<forall>t\<in>set ts. fst (should_delete_torrent t ?s2) = Inr True \<and> t_hash t \<noteq> None"
      using Cons.prems(3) should_delete_verdict_cong [of ?s2 s] by simp
    have "qb (this ?s2) = Some c" using Cons.prems(1) by simp
    from Cons.IH [OF this Cons.prems(2) pre, of k]
    obtain s' evs where ih: "cleanup_loop api ts k ?s2 =
            (Inr (k + length (filter (\<lambda>t. t_hash t \<noteq> Some hk) ts)), s')"
      "this s' = this ?s2" "trace s' = trace ?s2 @ evs"
      "delete_calls evs = map (\<lambda>t. (case c_delete_files (qb_config (this ?s2)) of None \<Rightarrow> False | Some b \<Rightarrow> b, the (t_hash t))) ts"
      "filter is_error evs =
         map (\<lambda>t. Log ERROR (DeleteFailed (the (t_name t)) e)) (filter (\<lambda>t. t_hash t = Some hk) ts)"
      by blast
    show ?thesis
      apply (rule exI [of _ s'])
      apply (rule exI [of _ "[Log INFO (MeetsDeleteCondition n r m), Call (TorrentsDelete ?df h),
                Log ERROR (DeleteFailed n e)] @ evs"])
      using ih step True h n by simp
  next
    case False
    let ?s2 = "?s1\<lparr>world := w',
        trace := trace ?s1 @ [Call (TorrentsDelete ?df h), Log INFO (DeletedTorrent n ?df)]\<rparr>"
    have del: "delete_torrent api t ?df ?s1 = (Inr True, ?s2)"
      using delete_torrent_step [OF q1 n h, of api ?df] call res False by simp
    have step: "cleanup_loop api (t # ts) k s = cleanup_loop api ts (k + 1) ?s2"
      using sd del by simp
    have pre: "\<forall>t\<in>set ts. fst (should_delete_torrent t ?s2) = Inr True \<and> t_hash t \<noteq> None"
      using Cons.prems(3) should_delete_verdict_cong [of ?s2 s] by simp
    have "qb (this ?s2) = Some c" using Cons.prems(1) by simp
    from Cons.IH [OF this Cons.prems(2) pre, of "k + 1"]
    obtain s' evs where ih: "cleanup_loop api ts (k + 1) ?s2 =
            (Inr (k + 1 + length (filter (\<lambda>t. t_hash t \<noteq> Some hk) ts)), s')"
      "this s' = this ?s2" "trace s' = trace ?s2 @ evs"
      "delete_calls evs = map (\<lambda>t. (case c_delete_files (qb_config (this ?s2)) of None \<Rightarrow> False | Some b \<Rightarrow> b, the (t_hash t))) ts"
      "filter is_error evs =
         map (\<lambda>t. Log ERROR (DeleteFailed (the (t_name t)) e)) (filter (\<lambda>t. t_hash t = Some hk) ts)"
      by blast
    show ?thesis
      apply (rule exI [of _ s'])
      apply (rule exI [of _ "[Log INFO (MeetsDeleteCondition n r m), Call (TorrentsDelete ?df h),
                Log INFO (DeletedTorrent n ?df)] @ evs"])
      using ih step False h n by simp
  qed
qed

lemma tag_list_no_empty: "[] \<notin> set (tag_list v)"
  by (auto simp: tag_list_def)

lemma demo_tag_list: "tag_list ''movies, ,tv,'' = [''movies'', ''tv'']" "tag_list '' keep ,,'' = [''keep'']"
  by (simp_all add: tag_list_def strip_def isspace_def)

lemma connect_missing_credentials:
  assumes "c_url (qb_config (this s)) = None \<or> c_username (qb_config (this s)) = None
           \<or> c_password (qb_config (this s)) = None"
  shows "connect_qbittorrent api s = (False, emit (Log ERROR MissingCredentials) s)"
  using assms by (auto simp: connect_qbittorrent_def Let_def)

lemma connect_missing_port:
  assumes "c_url (qb_config (this s)) = Some url" and "c_username (qb_config (this s)) = Some username"
    and "c_password (qb_config (this s)) = Some password" and "c_port (qb_config (this s)) = None"
  shows "connect_qbittorrent api s =
    (False, s\<lparr>trace := trace s @ [PrintExc (KeyError ''port''), Log ERROR (ConnectFailed (KeyError ''port''))]\<rparr>)"
  using assms by (simp add: connect_qbittorrent_def connect_body_def Let_def emit_def)

lemma connect_configured:
  assumes "c_url (qb_config (this s)) = Some url" and "c_username (qb_config (this s)) = Some username"
    and "c_password (qb_config (this s)) = Some password" and "c_port (qb_config (this s)) = Some port"
  shows "connect_qbittorrent api s =
    (case api_Client api url port username password (world s) of
       (Inl e, w1) \<Rightarrow>
         (False, s\<lparr>world := w1, trace := trace s @
            [Log INFO (Connecting url port username), Call (NewClient url port username password),
             PrintExc e, Log ERROR (ConnectFailed e)]\<rparr>)
     | (Inr c, w1) \<Rightarrow>
        (case api_auth_log_in api c w1 of
           (Inl e, w2) \<Rightarrow>
             (is_LoginFailed e, s\<lparr>this := (this s)\<lparr>qb := Some c\<rparr>, world := w2, trace := trace s @
                [Log INFO (Connecting url port username), Call (NewClient url port username password),
                 Call AuthLogIn] @
                (if is_LoginFailed e then [Log ERROR (ConnectFailed e)]
                 else [PrintExc e, Log ERROR (ConnectFailed e)])\<rparr>)
         | (Inr u, w2) \<Rightarrow>
            (case api_app_version api c w2 of
               (Inl e, w3) \<Rightarrow>
                 (is_LoginFailed e, s\<lparr>this := (this s)\<lparr>qb := Some c\<rparr>, world := w3, trace := trace s @
                    [Log INFO (Connecting url port username), Call (NewClient url port username password),
                     Call AuthLogIn, Call AppVersion] @
                    (if is_LoginFailed e then [Log ERROR (ConnectFailed e)]
                     else [PrintExc e, Log ERROR (ConnectFailed e)])\<rparr>)
             | (Inr v, w3) \<Rightarrow>
                 (True, s\<lparr>this := (this s)\<lparr>qb := Some c\<rparr>, world := w3, trace := trace s @
                    [Log INFO (Connecting url port username), Call (NewClient url port username password),
                     Call AuthLogIn, Call AppVersion, Log INFO (ConnectedVersion v)]\<rparr>))))"
  using assms
  by (simp add: connect_qbittorrent_def connect_body_def login_body_def call_Client_def
      call_auth_log_in_def call_app_version_def Let_def emit_def
      split: prod.split sum.split)

lemma connect_frame:
  "\<exists>evs h. trace (snd (connect_qbittorrent api s)) = trace s @ evs \<and> evs \<noteq> []
     \<and> list_all connect_event evs
     \<and> this (snd (connect_qbittorrent api s)) = (this s)\<lparr>qb := h\<rparr>
     \<and> (fst (connect_qbittorrent api s) \<longrightarrow> h \<noteq> None)
     \<and> (\<not> fst (connect_qbittorrent api s) \<longrightarrow> is_connect_failure (last evs))"
proof (cases "c_url (qb_config (this s)) = None \<or> c_username (qb_config (this s)) = None
           \<or> c_password (qb_config (this s)) = None")
  case True
  show ?thesis
    unfolding connect_missing_credentials [OF True]
    by (rule exI [of _ "[Log ERROR MissingCredentials]"], rule exI [of _ "qb (this s)"]) simp
next
  case False
  then obtain url username password where c: "c_url (qb_config (this s)) = Some url"
    "c_username (qb_config (this s)) = Some username" "c_password (qb_config (this s)) = Some password"
    by auto
  show ?thesis
  proof (cases "c_port (qb_config (this s))")
    case None
    show ?thesis
      unfolding connect_missing_port [OF c None]
      by (rule exI [of _ "[PrintExc (KeyError ''port''), Log ERROR (ConnectFailed (KeyError ''port''))]"],
          rule exI [of _ "qb (this s)"]) simp
  next
    case (Some port)
    show ?thesis
      unfolding connect_configured [OF c Some]
      by (auto split: prod.split sum.split intro: exI [of _ "qb (this s)"])
  qed
qed

lemma delete_torrent_frame:
  "\<exists>evs. trace (snd (delete_torrent api t df s)) = trace s @ evs \<and> list_all loop_event evs
     \<and> this (snd (delete_torrent api t df s)) = this s"
  by (auto simp: delete_torrent_def delete_body_def call_torrents_delete_def emit_def
      split: option.split prod.split sum.split)

lemma cleanup_loop_frame:
  "\<exists>evs. trace (snd (cleanup_loop api ts k s)) = trace s @ evs \<and> list_all loop_event evs
     \<and> this (snd (cleanup_loop api ts k s)) = this s"
proof (induction ts arbitrary: k s)
  case Nil
  then show ?case by simp
next
  case (Cons t ts)
  let ?df = "case c_delete_files (qb_config (this s)) of None \<Rightarrow> False | Some b \<Rightarrow> b"
  consider (no) "should_delete_torrent t s = (Inr False, s)"
    | (yes) n r m where "should_delete_torrent t s = (Inr True, emit (Log INFO (MeetsDeleteCondition n r m)) s)"
    | (err) x where "should_delete_torrent t s = (Inl x, s)"
    using should_delete_cases [of t s] by blast
  then show ?case
  proof cases
    case no
    with Cons.IH [of k s] show ?thesis by simp
  next
    case err
    then show ?thesis by simp
  next
    case yes
    let ?s1 = "emit (Log INFO (MeetsDeleteCondition n r m)) s"
    obtain res s2 where d: "delete_torrent api t ?df ?s1 = (res, s2)"
      by (cases "delete_torrent api t ?df ?s1")
    from delete_torrent_frame [of api t ?df ?s1] d
    obtain evs where e: "trace s2 = trace s @ Log INFO (MeetsDeleteCondition n r m) # evs"
      "list_all loop_event evs" "this s2 = this s"
      by auto
    show ?thesis
    proof (cases res)
      case (Inl x)
      with yes d e show ?thesis by simp
    next
      case (Inr b)
      from Cons.IH [of "if b then k + 1 else k" s2]
      obtain evs2 where f: "trace (snd (cleanup_loop api ts (if b then k + 1 else k) s2)) = trace s2 @ evs2"
        "list_all loop_event evs2" "this (snd (cleanup_loop api ts (if b then k + 1 else k) s2)) = this s2"
        by blast
      have "cleanup_loop api (t # ts) k s = cleanup_loop api ts (if b then k + 1 else k) s2"
        using yes d Inr by simp
      with e f show ?thesis by simp
    qed
  qed
qed

lemma loop_event_pass_event: "loop_event e \<Longrightarrow> pass_event e"
  by (induction e rule: pass_event.induct) simp_all

lemma cleanup_connected:
  assumes "qb (this s) = Some c"
  shows "\<exists>evs. trace (cleanup_torrents api s) = trace s @ Log INFO StartCheck # Call TorrentsInfo # evs
     \<and> list_all pass_event evs \<and> this (cleanup_torrents api s) = this s"
proof -
  let ?s0 = "emit (Log INFO StartCheck) s"
  obtain completed s1 where g: "get_completed_torrents api ?s0 = (completed, s1)"
    by (cases "get_completed_torrents api ?s0")
  from g assms obtain evs1 where g1: "trace s1 = trace s @ Log INFO StartCheck # Call TorrentsInfo # evs1"
    "list_all pass_event evs1" "this s1 = this s"
    by (auto simp: get_completed_torrents_def call_torrents_info_def emit_def
        split: prod.splits sum.splits)
  let ?s2 = "emit (Log INFO (FoundCompleted (length completed))) s1"
  obtain res s3 where l: "cleanup_loop api completed 0 ?s2 = (res, s3)"
    by (cases "cleanup_loop api completed 0 ?s2")
  from cleanup_loop_frame [of api completed 0 ?s2] l
  obtain evs2 where l1: "trace s3 = trace ?s2 @ evs2" "list_all loop_event evs2" "this s3 = this s1"
    by auto
  from l1(2) have l2: "list_all pass_event evs2"
    by (simp add: list_all_iff loop_event_pass_event)
  have "cleanup_torrents api s =
      (case res of Inl e \<Rightarrow> emit (Log ERROR (CleanupError e)) s3
       | Inr n \<Rightarrow> emit (Log INFO (CleanupDone n)) s3)"
    using assms g l by (simp add: cleanup_torrents_def cleanup_body_def Let_def split: sum.split)
  with g1 l1 l2 show ?thesis
    by (cases res) simp_all
qed

lemma connect_event_quiet:
  "connect_event e \<Longrightarrow> \<not> is_listing_call e \<and> \<not> is_pass_start e \<and> \<not> is_delete_call e
     \<and> e \<noteq> Call SchedulerStart"
  by (induction e rule: connect_event.induct) auto

lemma loop_event_quiet:
  "loop_event e \<Longrightarrow> \<not> is_listing_call e \<and> \<not> is_pass_start e \<and> \<not> connect_event e
     \<and> e \<noteq> Call SchedulerStart"
  by (induction e rule: loop_event.induct) auto

lemma pass_event_quiet:
  "pass_event e \<Longrightarrow> \<not> is_listing_call e \<and> \<not> is_pass_start e \<and> \<not> connect_event e
     \<and> e \<noteq> Call SchedulerStart"
  by (induction e rule: pass_event.induct) (auto dest: loop_event_quiet)

lemma delete_calls_none: "list_all (\<lambda>e. \<not> is_delete_call e) evs \<Longrightarrow> delete_calls evs = []"
  by (induction evs rule: delete_calls.induct) simp_all

lemma pass_start_count:
  assumes "list_all pass_event evs"
  shows "filter is_pass_start (Log INFO StartCheck # Call TorrentsInfo # evs) = [Log INFO StartCheck]"
    and "Call SchedulerStart \<notin> set evs"
  using assms pass_event_quiet by (auto simp: list_all_iff filter_empty_conv)

lemma scheduler_start_connected:
  assumes "qb (this s) = Some c"
  shows "fst (scheduler_start api evs s) =
           (case dropWhile (\<lambda>ev. ev = IntervalElapsed) evs of
              [] \<Rightarrow> Blocked
            | IntervalElapsed # _ \<Rightarrow> Blocked
            | KeyboardInterrupt # _ \<Rightarrow> Interrupted
            | SchedulerFault e # _ \<Rightarrow> Raised e)
         \<and> (\<exists>tr. trace (snd (scheduler_start api evs s)) = trace s @ tr
              \<and> length (filter is_pass_start tr) = length (takeWhile (\<lambda>ev. ev = IntervalElapsed) evs)
              \<and> Call SchedulerStart \<notin> set tr)"
  using assms
proof (induction evs arbitrary: s)
  case Nil
  then show ?case by simp
next
  case (Cons ev evs)
  show ?case
  proof (cases ev)
    case IntervalElapsed
    from cleanup_connected [OF Cons.prems, of api]
    obtain evp where p: "trace (cleanup_torrents api s) = trace s @ Log INFO StartCheck # Call TorrentsInfo # evp"
      "list_all pass_event evp" "this (cleanup_torrents api s) = this s"
      by blast
    then have "qb (this (cleanup_torrents api s)) = Some c" using Cons.prems by simp
    from Cons.IH [OF this]
    obtain tr where i: "fst (scheduler_start api evs (cleanup_torrents api s)) =
           (case dropWhile (\<lambda>ev. ev = IntervalElapsed) evs of
              [] \<Rightarrow> Blocked
            | IntervalElapsed # _ \<Rightarrow> Blocked
            | KeyboardInterrupt # _ \<Rightarrow> Interrupted
            | SchedulerFault e # _ \<Rightarrow> Raised e)"
      "trace (snd (scheduler_start api evs (cleanup_torrents api s))) = trace (cleanup_torrents api s) @ tr"
      "length (filter is_pass_start tr) = length (takeWhile (\<lambda>ev. ev = IntervalElapsed) evs)"
      "Call SchedulerStart \<notin> set tr"
      by blast
    show ?thesis
      apply (rule conjI)
      subgoal using IntervalElapsed i(1) by simp
      apply (rule exI [of _ "Log INFO StartCheck # Call TorrentsInfo # evp @ tr"])
      using IntervalElapsed i p(1) pass_start_count [OF p(2)] by simp
  next
    case KeyboardInterrupt
    then show ?thesis by simp
  next
    case (SchedulerFault e)
    then show ?thesis by simp
  qed
qed

lemma dropWhile_all: "(dropWhile P xs = []) = (\<forall>x\<in>set xs. P x)"
  by (induction xs) auto

lemma truediv_0: "truediv 0 60 = Inr (Fin 0)"
  by (simp add: truediv_def)

lemma truediv_3000: "truediv 3000 60 = Inr (Fin 50)"
proof -
  have e: "float_exponent 3000 60 = 5"
    by (simp add: float_exponent_def bit_length.simps pow2_def)
  have m: "float_mantissa 3000 60 (- 47) = 7036874417766400"
    by (simp add: float_mantissa_def round_half_even_def)
  show ?thesis
    by (simp add: truediv_def e m pow2_def)
qed

lemma truediv_3600: "truediv 3600 60 = Inr (Fin 60)"
proof -
  have e: "float_exponent 3600 60 = 5"
    by (simp add: float_exponent_def bit_length.simps pow2_def)
  have m: "float_mantissa 3600 60 (- 47) = 8444249301319680"
    by (simp add: float_mantissa_def round_half_even_def)
  show ?thesis
    by (simp add: truediv_def e m pow2_def)
qed

lemma truediv_9000: "truediv 9000 60 = Inr (Fin 150)"
proof -
  have e: "float_exponent 9000 60 = 7"
    by (simp add: float_exponent_def bit_length.simps pow2_def)
  have m: "float_mantissa 9000 60 (- 45) = 5277655813324800"
    by (simp add: float_mantissa_def round_half_even_def)
  show ?thesis
    by (simp add: truediv_def e m pow2_def)
qed

lemma truediv_6: "truediv 6 60 = Inr (Fin float_tenth)"
proof -
  have e: "float_exponent 6 60 = - 4"
    by (simp add: float_exponent_def bit_length.simps pow2_def)
  have m: "float_mantissa 6 60 (- 56) = 7205759403792794"
    by (simp add: float_mantissa_def round_half_even_def)
  show ?thesis
    by (simp add: truediv_def e m pow2_def float_tenth_def)
qed

lemma truediv_huge:
  "truediv huge_seconds 60 = Inl (OverflowError ''integer division result too large for a float'')"
proof -
  have pos: "0 < huge_seconds" by (simp add: huge_seconds_def)
  have b: "bit_length huge_seconds = 1031"
    by (simp add: huge_seconds_def bit_length.simps)
  have e: "float_exponent huge_seconds 60 = 1024"
    by (simp add: float_exponent_def b bit_length.simps pow2_def huge_seconds_def)
  have m: "float_mantissa huge_seconds 60 972 = 4803839602528529"
    by (simp add: float_mantissa_def round_half_even_def huge_seconds_def)
  show ?thesis
    using pos by (simp add: truediv_def e m pow2_def)
qed

lemmas demo_truediv = truediv_0 truediv_3000 truediv_3600 truediv_9000

section \<open>The threshold rule\<close>

text \<open>
  C1, as stated over exact quotients, fails. With the seeding limit at the float \<^verbatim>\<open>0.1\<close> and
  6 seconds of seeding, line 107 computes the float nearest to 6/60, which is the limit
  itself, and the verdict is true, although the exact sixtieth of 6 is below the limit and
  the ratio test fails. And when the seconds are so many that the quotient is no float,
  line 107 raises \<open>OverflowError\<close>, whatever the ratio is.
\<close>

theorem threshold_rounding_counterexample:
  "fst (should_delete_torrent (demo_torrent ''a1'' [] 0 6)
         (demo_state ((demo_config [] [])\<lparr>c_seeding_time_limit := Some (Fin float_tenth)\<rparr>) None))
     = Inr True
   \<and> \<not> ((0::rat) \<ge> 2 \<or> (6::rat) / 60 \<ge> float_tenth)
   \<and> fst (should_delete_torrent (demo_torrent ''a1'' [] 10 huge_seconds)
         (demo_state (demo_config [] []) None))
     = Inl (OverflowError ''integer division result too large for a float'')"
  by (simp add: should_delete_torrent_def demo_torrent_def demo_state_def demo_config_def
      QBittorrentAutoMate_init_def truediv_6 truediv_huge float_tenth_def pow2_def)

text \<open>
  C1, amended. For every record that has its \<^verbatim>\<open>ratio\<close>, \<^verbatim>\<open>seeding_time\<close> and \<^verbatim>\<open>name\<close> keys,
  passes both tag gates (its tags are not in the exclude list, and the include list is empty
  or contains them), whose seconds divided by 60 give a float \<open>minutes\<close> (the float nearest
  to the exact quotient, as Python's division yields it) and whose ratio can be formatted,
  \<open>should_delete_torrent\<close> returns true exactly when the ratio is at least the ratio limit
  or \<open>minutes\<close> is at least the seeding limit, in the sense of Python's \<^verbatim>\<open>>=\<close>. Either
  threshold alone suffices.
\<close>

theorem should_delete_threshold:
  assumes "tags_of torrent \<notin> set (exclude_tags (this s))"
    and "include_tags (this s) = [] \<or> tags_of torrent \<in> set (include_tags (this s))"
    and "t_ratio torrent = Some ratio" and "t_seeding_time torrent = Some secs"
    and "t_name torrent = Some n"
    and "truediv secs 60 = Inr minutes" and "\<not> format_overflows ratio"
  shows "fst (should_delete_torrent torrent s) =
           Inr (py_ge ratio (ratio_limit (this s)) \<or> py_ge minutes (seeding_time_limit (this s)))"
  using assms by (auto simp: should_delete_torrent_def tags_of_def Let_def)

theorem should_delete_threshold_witness:
  "fst (should_delete_torrent (demo_torrent ''a1'' [] (1/2) 9000) (demo_state (demo_config [] []) None)) = Inr True
   \<and> fst (should_delete_torrent (demo_torrent ''a1'' [] (5/2) 3600) (demo_state (demo_config [] []) None)) = Inr True
   \<and> fst (should_delete_torrent (demo_torrent ''a1'' [] (1/2) 3000) (demo_state (demo_config [] []) None)) = Inr False
   \<and> fst (should_delete_torrent (demo_torrent ''a1'' [] 0 6)
         (demo_state ((demo_config [] [])\<lparr>c_seeding_time_limit := Some (Fin float_tenth)\<rparr>) None)) = Inr True"
  using should_delete_threshold [where torrent = "demo_torrent ''a1'' [] (1/2) 9000"
      and s = "demo_state (demo_config [] []) None" and ratio = "Fin (1/2)" and secs = 9000
      and n = "''torrent-a1''" and minutes = "Fin 150"]
    should_delete_threshold [where torrent = "demo_torrent ''a1'' [] (5/2) 3600"
      and s = "demo_state (demo_config [] []) None" and ratio = "Fin (5/2)" and secs = 3600
      and n = "''torrent-a1''" and minutes = "Fin 60"]
    should_delete_threshold [where torrent = "demo_torrent ''a1'' [] (1/2) 3000"
      and s = "demo_state (demo_config [] []) None" and ratio = "Fin (1/2)" and secs = 3000
      and n = "''torrent-a1''" and minutes = "Fin 50"]
    should_delete_threshold [where torrent = "demo_torrent ''a1'' [] 0 6"
      and s = "demo_state ((demo_config [] [])\<lparr>c_seeding_time_limit := Some (Fin float_tenth)\<rparr>) None"
      and ratio = "Fin 0" and secs = 6 and n = "''torrent-a1''" and minutes = "Fin float_tenth"]
  by (simp add: demo_torrent_def demo_state_def demo_config_def QBittorrentAutoMate_init_def tags_of_def
      demo_truediv truediv_6 pow2_def)

section \<open>The tag gates\<close>

text \<open>
  C3. For every record whose tags are a member of the exclude list,
  \<open>should_delete_torrent\<close> returns false and does nothing else, whatever the ratio and
  the seeding time are. The check comes first: the include list is not consulted and the
  keys \<^verbatim>\<open>ratio\<close>, \<^verbatim>\<open>seeding_time\<close> and \<^verbatim>\<open>name\<close> are not read, so the result is false even
  for a record that lacks them.
\<close>

theorem excluded_never_deleted:
  assumes "tags_of torrent \<in> set (exclude_tags (this s))"
  shows "should_delete_torrent torrent s = (Inr False, s)"
  using assms by (simp add: should_delete_torrent_def tags_of_def Let_def)

theorem excluded_never_deleted_witness:
  "should_delete_torrent
     \<lparr>t_name = None, t_hash = None, t_tags = Some ''movies'', t_ratio = None, t_seeding_time = None\<rparr>
     (demo_state (demo_config [''movies''] [''tv'']) None)
   = (Inr False, demo_state (demo_config [''movies''] [''tv'']) None)
   \<and> should_delete_torrent (demo_torrent ''a1'' ''movies'' 10 0) (demo_state (demo_config [''movies''] []) None)
   = (Inr False, demo_state (demo_config [''movies''] []) None)"
  using excluded_never_deleted [of "\<lparr>t_name = None, t_hash = None, t_tags = Some ''movies'', t_ratio = None, t_seeding_time = None\<rparr>"
      "demo_state (demo_config [''movies''] [''tv'']) None"]
    excluded_never_deleted [of "demo_torrent ''a1'' ''movies'' 10 0" "demo_state (demo_config [''movies''] []) None"]
  by (simp add: demo_torrent_def demo_state_def demo_config_def QBittorrentAutoMate_init_def tags_of_def)

text \<open>
  C4. For every record, if the include list is non-empty and the record's tags are not a
  member of it, \<open>should_delete_torrent\<close> returns false and does nothing else. When the
  include list is empty the gate imposes no restriction: the verdict is the one obtained
  with an include list that contains the record's tags.
\<close>

theorem include_gate:
  "(include_tags (this s) \<noteq> [] \<and> tags_of torrent \<notin> set (include_tags (this s))
      \<longrightarrow> should_delete_torrent torrent s = (Inr False, s))
   \<and> (include_tags (this s) = []
      \<longrightarrow> fst (should_delete_torrent torrent s) =
          fst (should_delete_torrent torrent (s\<lparr>this := (this s)\<lparr>include_tags := [tags_of torrent]\<rparr>\<rparr>)))"
  by (simp add: should_delete_torrent_def tags_of_def Let_def split: option.split sum.split)

theorem include_gate_witness:
  "should_delete_torrent (demo_torrent ''a1'' ''music'' 10 0) (demo_state (demo_config [] [''tv'']) None)
     = (Inr False, demo_state (demo_config [] [''tv'']) None)
   \<and> fst (should_delete_torrent (demo_torrent ''a1'' ''music'' 10 0) (demo_state (demo_config [] []) None))
     = Inr True"
  using include_gate [of "demo_state (demo_config [] [''tv'']) None" "demo_torrent ''a1'' ''music'' 10 0"]
    include_gate [of "demo_state (demo_config [] []) None" "demo_torrent ''a1'' ''music'' 10 0"]
  by (simp add: demo_torrent_def demo_state_def demo_config_def QBittorrentAutoMate_init_def tags_of_def
      should_delete_torrent_def demo_truediv pow2_def)

section \<open>Effects of the decision\<close>

text \<open>
  C8, as stated, fails: the decision is not free of effects. When the verdict is true,
  \<open>should_delete_torrent\<close> hands a record to the logger (line 111), so the state after
  the call differs from the state before it.
\<close>

theorem should_delete_logs_counterexample:
  "snd (should_delete_torrent (demo_torrent ''a1'' [] (5/2) 3600) (demo_state (demo_config [] []) None))
     \<noteq> demo_state (demo_config [] []) None
   \<and> trace (snd (should_delete_torrent (demo_torrent ''a1'' [] (5/2) 3600) (demo_state (demo_config [] []) None)))
     = [Log INFO (MeetsDeleteCondition ''torrent-a1'' (Fin (5/2)) (Fin 60))]"
  by (simp add: should_delete_torrent_def demo_torrent_def demo_state_def demo_config_def
      QBittorrentAutoMate_init_def emit_def demo_truediv pow2_def)

text \<open>
  C8, amended. \<open>should_delete_torrent\<close> leaves the instance and the remote service
  untouched. Its only effect is one \<open>INFO\<close> log record, written exactly when the verdict
  is true, and that record carries the record's name, its ratio and its seeding time in
  minutes (the float that dividing the seconds by 60 yields); in every other case the trace
  is unchanged. The verdict is a function of the record and of the four policy attributes
  (ratio limit, seeding limit, exclude list, include list) alone: it is the same for any
  connection settings, client handle, remote state and earlier trace.
\<close>

theorem should_delete_effect:
  "this (snd (should_delete_torrent torrent s)) = this s
   \<and> world (snd (should_delete_torrent torrent s)) = world s
   \<and> (fst (should_delete_torrent torrent s) = Inr True \<longrightarrow>
        (\<exists>n ratio secs minutes.
           t_name torrent = Some n \<and> t_ratio torrent = Some ratio
           \<and> t_seeding_time torrent = Some secs \<and> truediv secs 60 = Inr minutes
           \<and> trace (snd (should_delete_torrent torrent s)) =
               trace s @ [Log INFO (MeetsDeleteCondition n ratio minutes)]))
   \<and> (fst (should_delete_torrent torrent s) \<noteq> Inr True \<longrightarrow>
        trace (snd (should_delete_torrent torrent s)) = trace s)
   \<and> fst (should_delete_torrent torrent s) =
       fst (should_delete_torrent torrent
             \<lparr>this = (this s)\<lparr>qb_config := cfg, qb := handle\<rparr>, world = w, trace = tr\<rparr>)"
proof -
  have "fst (should_delete_torrent torrent s) =
       fst (should_delete_torrent torrent
             \<lparr>this = (this s)\<lparr>qb_config := cfg, qb := handle\<rparr>, world = w, trace = tr\<rparr>)"
    by (rule sym, rule should_delete_verdict_cong) simp_all
  moreover have "this (snd (should_delete_torrent torrent s)) = this s
      \<and> world (snd (should_delete_torrent torrent s)) = world s"
    using should_delete_cases [of torrent s] by auto
  moreover have "fst (should_delete_torrent torrent s) = Inr True \<longrightarrow>
        (\<exists>n ratio secs minutes.
           t_name torrent = Some n \<and> t_ratio torrent = Some ratio
           \<and> t_seeding_time torrent = Some secs \<and> truediv secs 60 = Inr minutes
           \<and> trace (snd (should_delete_torrent torrent s)) =
               trace s @ [Log INFO (MeetsDeleteCondition n ratio minutes)])"
    by (auto simp: should_delete_torrent_def Let_def split: option.split sum.split)
  moreover have "fst (should_delete_torrent torrent s) \<noteq> Inr True \<longrightarrow>
        trace (snd (should_delete_torrent torrent s)) = trace s"
    by (auto simp: should_delete_torrent_def Let_def split: option.split sum.split)
  ultimately show ?thesis by blast
qed

theorem should_delete_effect_witness:
  "fst (should_delete_torrent (demo_torrent ''a1'' [] (5/2) 3600) (demo_state (demo_config [] []) None))
   = fst (should_delete_torrent (demo_torrent ''a1'' [] (5/2) 3600)
        \<lparr>this = (this (demo_state (demo_config [] []) None))\<lparr>qb_config := demo_config [''x''] [''y''],
             qb := Some demo_client\<rparr>, world = True, trace = [Call SchedulerStart]\<rparr>)
   \<and> world (snd (should_delete_torrent (demo_torrent ''a1'' [] (5/2) 3600) (demo_state (demo_config [] []) None))) = 0
   \<and> trace (snd (should_delete_torrent (demo_torrent ''a1'' [] (5/2) 3600) (demo_state (demo_config [] []) None)))
     = [Log INFO (MeetsDeleteCondition ''torrent-a1'' (Fin (5/2)) (Fin 60))]
   \<and> trace (snd (should_delete_torrent (demo_torrent ''a1'' [] (1/2) 3000) (demo_state (demo_config [] []) None)))
     = []"
proof -
  let ?s = "demo_state (demo_config [] []) None"
  have v1: "fst (should_delete_torrent (demo_torrent ''a1'' [] (5/2) 3600) ?s) = Inr True"
    by (simp add: should_delete_torrent_def demo_torrent_def demo_state_def demo_config_def
        QBittorrentAutoMate_init_def demo_truediv pow2_def)
  have v2: "fst (should_delete_torrent (demo_torrent ''a1'' [] (1/2) 3000) ?s) \<noteq> Inr True"
    by (simp add: should_delete_torrent_def demo_torrent_def demo_state_def demo_config_def
        QBittorrentAutoMate_init_def demo_truediv pow2_def)
  have f: "t_name (demo_torrent ''a1'' [] (5/2) 3600) = Some ''torrent-a1''"
    "t_ratio (demo_torrent ''a1'' [] (5/2) 3600) = Some (Fin (5/2))"
    "t_seeding_time (demo_torrent ''a1'' [] (5/2) 3600) = Some 3600"
    "trace ?s = []" "world ?s = 0"
    by (simp_all add: demo_torrent_def demo_state_def)
  from should_delete_effect [where torrent = "demo_torrent ''a1'' [] (5/2) 3600"
      and s = ?s and cfg = "demo_config [''x''] [''y'']"
      and handle = "Some demo_client" and w = True and tr = "[Call SchedulerStart]"] v1 f
  have a: "fst (should_delete_torrent (demo_torrent ''a1'' [] (5/2) 3600) ?s)
   = fst (should_delete_torrent (demo_torrent ''a1'' [] (5/2) 3600)
        \<lparr>this = (this ?s)\<lparr>qb_config := demo_config [''x''] [''y''],
             qb := Some demo_client\<rparr>, world = True, trace = [Call SchedulerStart]\<rparr>)"
    and b: "world (snd (should_delete_torrent (demo_torrent ''a1'' [] (5/2) 3600) ?s)) = 0"
    and c: "trace (snd (should_delete_torrent (demo_torrent ''a1'' [] (5/2) 3600) ?s))
     = [Log INFO (MeetsDeleteCondition ''torrent-a1'' (Fin (5/2)) (Fin 60))]"
    by (auto simp: truediv_3600)
  from should_delete_effect [where torrent = "demo_torrent ''a1'' [] (1/2) 3000"
      and s = ?s and cfg = "demo_config [] []" and handle = None and w = "0::nat" and tr = "[]"] v2 f
  have d: "trace (snd (should_delete_torrent (demo_torrent ''a1'' [] (1/2) 3000) ?s)) = []"
    by simp
  from a b c d show ?thesis by blast
qed

section \<open>Tag lists from the environment\<close>

text \<open>
  C10. \<open>load_config\<close> drops the entries that are empty after stripping when it splits the
  comma-separated \<^verbatim>\<open>EXCLUDE_TAGS\<close> and \<^verbatim>\<open>INCLUDE_TAGS\<close>, so the empty tag string is a member
  of neither configured list. Hence, for every configuration loaded this way, a record
  without tags passes the exclusion gate, and it is rejected whenever the include list is
  non-empty.
\<close>

theorem untagged_never_listed:
  assumes "load_config py_float py_int environ = Inr config"
    and "this s = (QBittorrentAutoMate_init (qbittorrent config))\<lparr>qb := handle\<rparr>"
    and "tags_of torrent = []"
  shows "[] \<notin> set (exclude_tags (this s)) \<and> [] \<notin> set (include_tags (this s))
    \<and> tags_of torrent \<notin> set (exclude_tags (this s))
    \<and> (include_tags (this s) \<noteq> [] \<longrightarrow> should_delete_torrent torrent s = (Inr False, s))"
proof -
  from assms(1) have "c_exclude_tags (qbittorrent config) = Some (tag_list (getenv environ ''EXCLUDE_TAGS'' []))"
    and "c_include_tags (qbittorrent config) = Some (tag_list (getenv environ ''INCLUDE_TAGS'' []))"
    by (auto simp: load_config_def split: sum.splits)
  with assms(2) have ex: "exclude_tags (this s) = tag_list (getenv environ ''EXCLUDE_TAGS'' [])"
    and inc: "include_tags (this s) = tag_list (getenv environ ''INCLUDE_TAGS'' [])"
    by (simp_all add: QBittorrentAutoMate_init_def)
  have a: "[] \<notin> set (exclude_tags (this s))" and b: "[] \<notin> set (include_tags (this s))"
    using ex inc tag_list_no_empty by simp_all
  have "include_tags (this s) \<noteq> [] \<longrightarrow> should_delete_torrent torrent s = (Inr False, s)"
    using a b assms(3) by (simp add: should_delete_torrent_def tags_of_def Let_def)
  with a b assms(3) show ?thesis by simp
qed

theorem untagged_never_listed_witness:
  "load_config demo_float demo_int demo_environ = Inr \<lparr>qbittorrent = demo_config [''movies'', ''tv''] [''keep''],
       scheduler = \<lparr>interval_minutes = 60\<rparr>\<rparr>
   \<and> should_delete_torrent (demo_torrent ''a1'' [] 10 0) (demo_state (demo_config [''movies'', ''tv''] [''keep'']) None)
     = (Inr False, demo_state (demo_config [''movies'', ''tv''] [''keep'']) None)"
proof -
  have l: "load_config demo_float demo_int demo_environ = Inr \<lparr>qbittorrent = demo_config [''movies'', ''tv''] [''keep''],
       scheduler = \<lparr>interval_minutes = 60\<rparr>\<rparr>"
    by (simp add: load_config_def demo_float_def demo_int_def demo_environ_def getenv_def demo_config_def
        demo_tag_list lower_def lower_char_def Let_def)
  have t: "this (demo_state (demo_config [''movies'', ''tv''] [''keep'']) None)
     = (QBittorrentAutoMate_init (qbittorrent \<lparr>qbittorrent = demo_config [''movies'', ''tv''] [''keep''],
       scheduler = \<lparr>interval_minutes = 60\<rparr>\<rparr>))\<lparr>qb := None\<rparr>"
    by (simp add: demo_state_def)
  have u: "tags_of (demo_torrent ''a1'' [] 10 0) = []"
    by (simp add: tags_of_def demo_torrent_def)
  have n: "include_tags (this (demo_state (demo_config [''movies'', ''tv''] [''keep'']) None)) \<noteq> []"
    by (simp add: demo_state_def demo_config_def QBittorrentAutoMate_init_def)
  from untagged_never_listed [OF l t u] n l show ?thesis by blast
qed

section \<open>What connecting reports\<close>

text \<open>
  C9, as stated, fails: connecting reports failure in more cases than an absent \<^verbatim>\<open>url\<close>,
  \<^verbatim>\<open>username\<close> or \<^verbatim>\<open>password\<close> and a raising constructor. With all entries present and
  the constructor returning, a login that raises something other than \<open>LoginFailed\<close> is
  caught by the outer handler (line 89): the result is false, and the handle stays set.
\<close>

theorem connect_failure_counterexample:
  "fst (connect_qbittorrent (demo_api (Inl (APIError ''connection refused'')) (Inr []) [])
          (demo_state (demo_config [] []) None)) = False
   \<and> c_url (demo_config [] []) \<noteq> None \<and> c_username (demo_config [] []) \<noteq> None
   \<and> c_password (demo_config [] []) \<noteq> None
   \<and> fst (api_Client (demo_api (Inl (APIError ''connection refused'')) (Inr []) [])
            ''http://localhost'' ''8080'' ''admin'' ''adminadmin'' 0) = Inr demo_client
   \<and> qb (this (snd (connect_qbittorrent (demo_api (Inl (APIError ''connection refused'')) (Inr []) [])
          (demo_state (demo_config [] []) None)))) = Some demo_client"
  by (simp add: connect_configured [of _ "''http://localhost''" "''admin''" "''adminadmin''" "''8080''"]
      demo_api_def demo_state_def demo_config_def demo_client_def QBittorrentAutoMate_init_def)

text \<open>
  C9, amended. \<open>connect_qbittorrent\<close> returns true exactly when \<^verbatim>\<open>url\<close>, \<^verbatim>\<open>port\<close>,
  \<^verbatim>\<open>username\<close> and \<^verbatim>\<open>password\<close> are present, the constructor returns, and the login and the
  version query either both return or the first of them that raises raises \<open>LoginFailed\<close>;
  so a login failure is reported as success. The handle is set to the new client as soon as
  the constructor has returned, also when the result is false, and is unchanged otherwise.
  A pass on any state with the handle set does not connect: it logs its start and asks
  for the listing at once.
\<close>

theorem connect_qbittorrent_result:
  "fst (connect_qbittorrent api s) =
     (case (c_url (qb_config (this s)), c_port (qb_config (this s)),
            c_username (qb_config (this s)), c_password (qb_config (this s))) of
        (Some url, Some port, Some username, Some password) \<Rightarrow>
          (case api_Client api url port username password (world s) of
             (Inl e, w1) \<Rightarrow> False
           | (Inr c, w1) \<Rightarrow>
              (case api_auth_log_in api c w1 of
                 (Inl e, w2) \<Rightarrow> is_LoginFailed e
               | (Inr u, w2) \<Rightarrow>
                  (case api_app_version api c w2 of
                     (Inl e, w3) \<Rightarrow> is_LoginFailed e
                   | (Inr v, w3) \<Rightarrow> True)))
      | _ \<Rightarrow> False)
   \<and> qb (this (snd (connect_qbittorrent api s))) =
     (case (c_url (qb_config (this s)), c_port (qb_config (this s)),
            c_username (qb_config (this s)), c_password (qb_config (this s))) of
        (Some url, Some port, Some username, Some password) \<Rightarrow>
          (case api_Client api url port username password (world s) of
             (Inl e, w1) \<Rightarrow> qb (this s)
           | (Inr c, w1) \<Rightarrow> Some c)
      | _ \<Rightarrow> qb (this s))
   \<and> (qb (this s') \<noteq> None \<longrightarrow>
        (\<exists>evs. trace (cleanup_torrents api s') = trace s' @ Log INFO StartCheck # Call TorrentsInfo # evs
           \<and> list_all pass_event evs))"
proof -
  have pass: "qb (this s') \<noteq> None \<longrightarrow>
        (\<exists>evs. trace (cleanup_torrents api s') = trace s' @ Log INFO StartCheck # Call TorrentsInfo # evs
           \<and> list_all pass_event evs)"
    using cleanup_connected [of s' _ api] by blast
  show ?thesis
  proof (cases "c_url (qb_config (this s)) = None \<or> c_username (qb_config (this s)) = None
           \<or> c_password (qb_config (this s)) = None")
    case True
    then show ?thesis
      using pass by (auto simp: connect_missing_credentials split: option.split)
  next
    case False
    then obtain url username password where c: "c_url (qb_config (this s)) = Some url"
      "c_username (qb_config (this s)) = Some username" "c_password (qb_config (this s)) = Some password"
      by auto
    show ?thesis
    proof (cases "c_port (qb_config (this s))")
      case None
      then show ?thesis
        using pass c by (simp add: connect_missing_port [OF c None])
    next
      case (Some port)
      then show ?thesis
        using pass c by (simp add: connect_configured [OF c Some] split: prod.split sum.split)
    qed
  qed
qed

theorem connect_qbittorrent_result_witness:
  "fst (connect_qbittorrent (demo_api (Inl (LoginFailed ''bad credentials'')) (Inr []) [])
          (demo_state (demo_config [] []) None)) = True
   \<and> qb (this (snd (connect_qbittorrent (demo_api (Inl (LoginFailed ''bad credentials'')) (Inr []) [])
          (demo_state (demo_config [] []) None)))) = Some demo_client
   \<and> (\<exists>evs. trace (cleanup_torrents (demo_api (Inl (LoginFailed ''bad credentials'')) (Inr []) [])
                 (demo_state (demo_config [] []) (Some demo_client)))
          = trace (demo_state (demo_config [] []) (Some demo_client)) @ Log INFO StartCheck # Call TorrentsInfo # evs
           \<and> list_all pass_event evs)"
proof -
  have h: "qb (this (demo_state (demo_config [] []) (Some demo_client))) \<noteq> None"
    by (simp add: demo_state_def)
  from connect_qbittorrent_result [of "demo_api (Inl (LoginFailed ''bad credentials'')) (Inr []) []"
      "demo_state (demo_config [] []) None" "demo_state (demo_config [] []) (Some demo_client)"] h
  show ?thesis
    by (simp add: demo_api_def demo_state_def demo_config_def demo_client_def QBittorrentAutoMate_init_def)
qed

section \<open>A pass without a connection\<close>

text \<open>
  C6, as stated, fails when establishing the connection fails at the login. With no client
  handle and a login that raises \<open>LoginFailed\<close>, \<open>connect_qbittorrent\<close> logs the
  failure and still returns true (lines 86 to 88), and the pass goes on: it asks for the
  listing and deletes.
\<close>

theorem login_failure_pass_counterexample:
  "qb (this (demo_state (demo_config [] []) None)) = None
   \<and> trace (cleanup_torrents
        (demo_api (Inl (LoginFailed ''bad credentials'')) (Inr [demo_torrent ''a1'' [] 10 0]) [])
        (demo_state (demo_config [] []) None))
     = [Log INFO (Connecting ''http://localhost'' ''8080'' ''admin''),
        Call (NewClient ''http://localhost'' ''8080'' ''admin'' ''adminadmin''),
        Call AuthLogIn,
        Log ERROR (ConnectFailed (LoginFailed ''bad credentials'')),
        Log INFO StartCheck,
        Call TorrentsInfo,
        Log INFO (FoundCompleted 1),
        Log INFO (MeetsDeleteCondition ''torrent-a1'' (Fin 10) (Fin 0)),
        Call (TorrentsDelete False ''a1''),
        Log INFO (DeletedTorrent ''torrent-a1'' False),
        Log INFO (CleanupDone 1)]"
proof -
  let ?api = "demo_api (Inl (LoginFailed ''bad credentials'')) (Inr [demo_torrent ''a1'' [] 10 0]) []"
  let ?s = "demo_state (demo_config [] []) None"
  have q: "qb (this ?s) = None" by (simp add: demo_state_def)
  have c: "connect_qbittorrent ?api ?s =
      (True, ?s\<lparr>this := (this ?s)\<lparr>qb := Some demo_client\<rparr>, world := 2, trace :=
         [Log INFO (Connecting ''http://localhost'' ''8080'' ''admin''),
          Call (NewClient ''http://localhost'' ''8080'' ''admin'' ''adminadmin''),
          Call AuthLogIn, Log ERROR (ConnectFailed (LoginFailed ''bad credentials''))]\<rparr>)"
    by (simp add: connect_configured [of _ "''http://localhost''" "''admin''" "''adminadmin''" "''8080''"]
        demo_api_def demo_state_def demo_config_def demo_client_def QBittorrentAutoMate_init_def)
  let ?s1 = "?s\<lparr>this := (this ?s)\<lparr>qb := Some demo_client\<rparr>, world := 2, trace :=
         [Log INFO (Connecting ''http://localhost'' ''8080'' ''admin''),
          Call (NewClient ''http://localhost'' ''8080'' ''admin'' ''adminadmin''),
          Call AuthLogIn, Log ERROR (ConnectFailed (LoginFailed ''bad credentials''))]\<rparr>"
  have p1: "cleanup_torrents ?api ?s = cleanup_torrents ?api ?s1"
    using q by (simp add: cleanup_torrents_def c)
  have p2: "trace (cleanup_torrents ?api ?s1) =
       [Log INFO (Connecting ''http://localhost'' ''8080'' ''admin''),
        Call (NewClient ''http://localhost'' ''8080'' ''admin'' ''adminadmin''),
        Call AuthLogIn,
        Log ERROR (ConnectFailed (LoginFailed ''bad credentials'')),
        Log INFO StartCheck,
        Call TorrentsInfo,
        Log INFO (FoundCompleted 1),
        Log INFO (MeetsDeleteCondition ''torrent-a1'' (Fin 10) (Fin 0)),
        Call (TorrentsDelete False ''a1''),
        Log INFO (DeletedTorrent ''torrent-a1'' False),
        Log INFO (CleanupDone 1)]"
    by (simp add: cleanup_torrents_def cleanup_body_def get_completed_torrents_def
        call_torrents_info_def should_delete_torrent_def delete_torrent_def delete_body_def
        call_torrents_delete_def emit_def Let_def demo_api_def demo_state_def demo_config_def
        demo_torrent_def demo_client_def QBittorrentAutoMate_init_def demo_truediv pow2_def)
  from q p1 p2 show ?thesis by simp
qed

text \<open>
  C6, amended. Take a pass that starts with no client handle. If \<open>connect_qbittorrent\<close>
  returns false, the pass ends there: what it added to the trace ends with the connection
  failure logged at level \<open>ERROR\<close>, and contains no listing request, no deletion request
  and not even the record that opens the check. If \<open>connect_qbittorrent\<close> returns true,
  which includes a login refused with \<open>LoginFailed\<close>, the pass goes on after the
  connection events: it logs its start and asks for the listing.
\<close>

theorem no_connection_no_work:
  assumes "qb (this s) = None"
  shows "(\<not> fst (connect_qbittorrent api s) \<longrightarrow>
          (\<exists>evs. trace (cleanup_torrents api s) = trace s @ evs \<and> evs \<noteq> []
             \<and> is_connect_failure (last evs)
             \<and> filter is_listing_call evs = [] \<and> delete_calls evs = []
             \<and> filter is_pass_start evs = []))
       \<and> (fst (connect_qbittorrent api s) \<longrightarrow>
          (\<exists>evs. trace (cleanup_torrents api s) =
                   trace (snd (connect_qbittorrent api s)) @ Log INFO StartCheck # Call TorrentsInfo # evs
             \<and> list_all pass_event evs))"
proof (intro conjI impI)
  assume f: "\<not> fst (connect_qbittorrent api s)"
  from connect_frame [of api s] f
  obtain evs where e: "trace (snd (connect_qbittorrent api s)) = trace s @ evs" "evs \<noteq> []"
    "list_all connect_event evs" "is_connect_failure (last evs)"
    by blast
  have "cleanup_torrents api s = snd (connect_qbittorrent api s)"
    using assms f by (cases "connect_qbittorrent api s") (simp add: cleanup_torrents_def)
  moreover have "filter is_listing_call evs = []" "filter is_pass_start evs = []"
    using e(3) connect_event_quiet by (auto simp: list_all_iff filter_empty_conv)
  moreover have "delete_calls evs = []"
    using e(3) connect_event_quiet by (intro delete_calls_none) (auto simp: list_all_iff)
  ultimately show "\<exists>evs. trace (cleanup_torrents api s) = trace s @ evs \<and> evs \<noteq> []
             \<and> is_connect_failure (last evs)
             \<and> filter is_listing_call evs = [] \<and> delete_calls evs = []
             \<and> filter is_pass_start evs = []"
    using e by auto
next
  assume t: "fst (connect_qbittorrent api s)"
  then obtain s1 where s1: "connect_qbittorrent api s = (True, s1)"
    by (cases "connect_qbittorrent api s") auto
  from connect_frame [of api s] s1 obtain c where c: "qb (this s1) = Some c"
    by auto
  have "cleanup_torrents api s = cleanup_torrents api s1"
    using assms s1 c by (simp add: cleanup_torrents_def)
  with cleanup_connected [OF c, of api] s1
  show "\<exists>evs. trace (cleanup_torrents api s) =
                   trace (snd (connect_qbittorrent api s)) @ Log INFO StartCheck # Call TorrentsInfo # evs
             \<and> list_all pass_event evs"
    by auto
qed

theorem no_connection_no_work_witness:
  "trace (cleanup_torrents (demo_api (Inr ()) (Inr [demo_torrent ''a1'' [] 10 0]) [])
       (demo_state ((demo_config [] [])\<lparr>c_url := None\<rparr>) None)) = [Log ERROR MissingCredentials]
   \<and> (\<exists>evs. trace (cleanup_torrents (demo_api (Inr ()) (Inr [demo_torrent ''a1'' [] 10 0]) [])
       (demo_state ((demo_config [] [])\<lparr>c_url := None\<rparr>) None))
         = trace (demo_state ((demo_config [] [])\<lparr>c_url := None\<rparr>) None) @ evs \<and> evs \<noteq> []
     \<and> is_connect_failure (last evs)
     \<and> filter is_listing_call evs = [] \<and> delete_calls evs = [] \<and> filter is_pass_start evs = [])
   \<and> (\<exists>evs. trace (cleanup_torrents (demo_api (Inr ()) (Inr [demo_torrent ''a1'' [] 10 0]) [])
                 (demo_state (demo_config [] []) None))
         = trace (snd (connect_qbittorrent (demo_api (Inr ()) (Inr [demo_torrent ''a1'' [] 10 0]) [])
                 (demo_state (demo_config [] []) None)))
           @ Log INFO StartCheck # Call TorrentsInfo # evs
       \<and> list_all pass_event evs)"
proof -
  let ?api = "demo_api (Inr ()) (Inr [demo_torrent ''a1'' [] 10 0]) []"
  let ?s = "demo_state ((demo_config [] [])\<lparr>c_url := None\<rparr>) None"
  let ?s' = "demo_state (demo_config [] []) None"
  have h1: "qb (this ?s) = None" by (simp add: demo_state_def)
  have h1': "qb (this ?s') = None" by (simp add: demo_state_def)
  have c: "connect_qbittorrent ?api ?s = (False, emit (Log ERROR MissingCredentials) ?s)"
    by (rule connect_missing_credentials) (simp add: demo_state_def QBittorrentAutoMate_init_def)
  then have h2: "\<not> fst (connect_qbittorrent ?api ?s)" by simp
  have h3: "fst (connect_qbittorrent ?api ?s')"
    by (simp add: connect_configured [of _ "''http://localhost''" "''admin''" "''adminadmin''" "''8080''"]
        demo_api_def demo_state_def demo_config_def QBittorrentAutoMate_init_def)
  have "trace (cleanup_torrents ?api ?s) = [Log ERROR MissingCredentials]"
    using h1 c by (simp add: cleanup_torrents_def demo_state_def)
  with no_connection_no_work [OF h1, of ?api] no_connection_no_work [OF h1', of ?api] h2 h3
  show ?thesis by blast
qed

section \<open>A pass whose listing fails\<close>

text \<open>
  C5. The program has no result object for a pass: what a pass considered, deleted and
  failed at is what it logs, and the errors of a pass are its \<open>ERROR\<close> records. If the
  listing call raises, the pass logs the listing failure as its one error, reports 0
  completed torrents found and 0 deleted, requests no deletion, and returns normally; the
  scheduler that ran it is afterwards blocked waiting for the next fire, and a further
  fire runs again.
\<close>

theorem listing_failure_pass:
  assumes "qb (this s) = Some c" and "api_torrents_info api c (world s) = (Inl e, w1)"
  shows "cleanup_torrents api s =
           s\<lparr>world := w1, trace := trace s @
              [Log INFO StartCheck, Call TorrentsInfo, Log ERROR (ListFailed e),
               Log INFO (FoundCompleted 0), Log INFO (CleanupDone 0)]\<rparr>
         \<and> scheduler_start api [IntervalElapsed] s = (Blocked, cleanup_torrents api s)
         \<and> fst (scheduler_start api [IntervalElapsed, IntervalElapsed] s) = Blocked"
proof -
  have p: "cleanup_torrents api s =
           s\<lparr>world := w1, trace := trace s @
              [Log INFO StartCheck, Call TorrentsInfo, Log ERROR (ListFailed e),
               Log INFO (FoundCompleted 0), Log INFO (CleanupDone 0)]\<rparr>"
    using assms
    by (simp add: cleanup_torrents_def cleanup_body_def get_completed_torrents_def
        call_torrents_info_def emit_def Let_def)
  then show ?thesis by simp
qed

theorem listing_failure_pass_witness:
  "trace (cleanup_torrents (demo_api (Inr ()) (Inl (APIError ''timed out'')) [])
       (demo_state (demo_config [] []) (Some demo_client)))
    = [Log INFO StartCheck, Call TorrentsInfo, Log ERROR (ListFailed (APIError ''timed out'')),
       Log INFO (FoundCompleted 0), Log INFO (CleanupDone 0)]
   \<and> fst (scheduler_start (demo_api (Inr ()) (Inl (APIError ''timed out'')) []) [IntervalElapsed, IntervalElapsed]
       (demo_state (demo_config [] []) (Some demo_client))) = Blocked"
proof -
  let ?api = "demo_api (Inr ()) (Inl (APIError ''timed out'')) []"
  let ?s = "demo_state (demo_config [] []) (Some demo_client)"
  have h1: "qb (this ?s) = Some demo_client" by (simp add: demo_state_def)
  have h2: "api_torrents_info ?api demo_client (world ?s) = (Inl (APIError ''timed out''), 1)"
    by (simp add: demo_api_def demo_state_def)
  from listing_failure_pass [OF h1 h2] show ?thesis by (simp add: demo_state_def)
qed

section \<open>A pass in which one deletion fails\<close>

text \<open>
  C2. Take a pass whose listing returns \<open>N\<close> records that all qualify for deletion and
  carry a hash, on a service that refuses to delete exactly the hash of record \<open>k\<close> and
  deletes every other one. The pass requests the deletion of all \<open>N\<close> records, in
  order; its \<open>ERROR\<close> records are exactly one, the failed deletion of \<open>k\<close>; it
  reports \<open>N\<close> records found and ends by reporting \<open>N - 1\<close> deleted.
\<close>

theorem partial_failure_isolation:
  assumes "qb (this s) = Some c"
    and "api_torrents_info api c (world s) = (Inr ts, w1)"
    and "\<forall>t\<in>set ts. fst (should_delete_torrent t s) = Inr True \<and> t_hash t \<noteq> None"
    and "\<forall>w df h. fst (api_torrents_delete api c df h w) = (if h = hk then Inl e else Inr ())"
    and "filter (\<lambda>t. t_hash t = Some hk) ts = [k]" and "t_name k = Some nk"
  shows "\<exists>evs. trace (cleanup_torrents api s) = trace s @ evs
         \<and> map (Some \<circ> snd) (delete_calls evs) = map t_hash ts
         \<and> filter is_error evs = [Log ERROR (DeleteFailed nk e)]
         \<and> Log INFO (FoundCompleted (length ts)) \<in> set evs
         \<and> last evs = Log INFO (CleanupDone (length ts - 1))"
proof -
  let ?s0 = "emit (Log INFO StartCheck) s"
  have g: "get_completed_torrents api ?s0 =
      (ts, s\<lparr>world := w1, trace := trace s @ [Log INFO StartCheck, Call TorrentsInfo]\<rparr>)"
    using assms(1,2) by (simp add: get_completed_torrents_def call_torrents_info_def emit_def)
  let ?s2 = "s\<lparr>world := w1, trace := trace s @
      [Log INFO StartCheck, Call TorrentsInfo, Log INFO (FoundCompleted (length ts))]\<rparr>"
  have q: "qb (this ?s2) = Some c" using assms(1) by simp
  have pre: "\<forall>t\<in>set ts. fst (should_delete_torrent t ?s2) = Inr True \<and> t_hash t \<noteq> None"
    using assms(3) should_delete_verdict_cong [of ?s2 s] by simp
  from cleanup_loop_candidates [OF q assms(4) pre, of 0]
  obtain s' evs where l: "cleanup_loop api ts 0 ?s2 =
            (Inr (0 + length (filter (\<lambda>t. t_hash t \<noteq> Some hk) ts)), s')"
    "trace s' = trace ?s2 @ evs"
    "delete_calls evs = map (\<lambda>t. (case c_delete_files (qb_config (this ?s2)) of None \<Rightarrow> False | Some b \<Rightarrow> b, the (t_hash t))) ts"
    "filter is_error evs =
        map (\<lambda>t. Log ERROR (DeleteFailed (the (t_name t)) e)) (filter (\<lambda>t. t_hash t = Some hk) ts)"
    by blast
  have "length (filter (\<lambda>t. t_hash t = Some hk) ts) + length (filter (\<lambda>t. t_hash t \<noteq> Some hk) ts) = length ts"
    using sum_length_filter_compl [of "\<lambda>t. t_hash t = Some hk" ts] by simp
  with assms(5) have n: "length (filter (\<lambda>t. t_hash t \<noteq> Some hk) ts) = length ts - 1"
    by simp
  have c: "cleanup_torrents api s = emit (Log INFO (CleanupDone (length ts - 1))) s'"
    using assms(1) g l(1) n by (simp add: cleanup_torrents_def cleanup_body_def Let_def emit_def)
  have h: "map (Some \<circ> snd) (delete_calls evs) = map t_hash ts"
    using l(3) assms(3) by auto
  have er: "filter is_error evs = [Log ERROR (DeleteFailed nk e)]"
    using l(4) assms(5,6) by simp
  show ?thesis
    apply (rule exI [of _ "[Log INFO StartCheck, Call TorrentsInfo, Log INFO (FoundCompleted (length ts))]
        @ evs @ [Log INFO (CleanupDone (length ts - 1))]"])
    using c l(2) h er by simp
qed

theorem partial_failure_isolation_witness:
  "\<exists>evs. trace (cleanup_torrents (demo_api (Inr ()) (Inr demo_listing) ''b2'')
              (demo_state (demo_config [] []) (Some demo_client))) = evs
     \<and> map (Some \<circ> snd) (delete_calls evs) = [Some ''a1'', Some ''b2'', Some ''c3'']
     \<and> filter is_error evs = [Log ERROR (DeleteFailed ''torrent-b2'' (APIError ''not found''))]
     \<and> Log INFO (FoundCompleted 3) \<in> set evs
     \<and> last evs = Log INFO (CleanupDone 2)"
proof -
  let ?api = "demo_api (Inr ()) (Inr demo_listing) ''b2''"
  let ?s = "demo_state (demo_config [] []) (Some demo_client)"
  have h1: "qb (this ?s) = Some demo_client" by (simp add: demo_state_def)
  have h2: "api_torrents_info ?api demo_client (world ?s) = (Inr demo_listing, 1)"
    by (simp add: demo_api_def demo_state_def)
  have h3: "\<forall>t\<in>set demo_listing. fst (should_delete_torrent t ?s) = Inr True \<and> t_hash t \<noteq> None"
    by (simp add: demo_listing_def demo_torrent_def demo_state_def demo_config_def
        QBittorrentAutoMate_init_def should_delete_torrent_def demo_truediv pow2_def Let_def)
  have h4: "\<forall>w df h. fst (api_torrents_delete ?api demo_client df h w) =
       (if h = ''b2'' then Inl (APIError ''not found'') else Inr ())"
    by (simp add: demo_api_def)
  have h5: "filter (\<lambda>t. t_hash t = Some ''b2'') demo_listing = [demo_torrent ''b2'' [] (1/2) 9000]"
    by (simp add: demo_listing_def demo_torrent_def)
  have h6: "t_name (demo_torrent ''b2'' [] (1/2) 9000) = Some ''torrent-b2''"
    by (simp add: demo_torrent_def)
  have t: "trace ?s = []" "length demo_listing = 3"
    "map t_hash demo_listing = [Some ''a1'', Some ''b2'', Some ''c3'']"
    by (simp_all add: demo_state_def demo_listing_def demo_torrent_def)
  from partial_failure_isolation [OF h1 h2 h3 h4 h5 h6] t show ?thesis by simp
qed

section \<open>The scheduler loop\<close>

text \<open>
  C7, as stated, fails in two places. An exception raised by \<^verbatim>\<open>scheduler.start()\<close> itself is
  caught at line 225 and the scheduler is shut down, so the loop ends without any stop
  signal. And when the first connection is reported as failed, \<^verbatim>\<open>main\<close> returns at line 201:
  no pass runs at process start and nothing is scheduled.
\<close>

theorem only_stop_signal_counterexample:
  "fst (main demo_float demo_int (demo_api (Inr ()) (Inr []) []) Map.empty
          [SchedulerFault (APIError ''scheduler'')] 0) = Stopped
   \<and> KeyboardInterrupt \<notin> set [SchedulerFault (APIError ''scheduler'')]
   \<and> main demo_float demo_int (demo_api (Inl (APIError ''connection refused'')) (Inr []) []) Map.empty
          [IntervalElapsed] 0
      = (ConnectGivenUp,
         [Log INFO ServiceStarting, Log INFO (Connecting ''http://localhost'' ''8080'' ''admin''),
          Call (NewClient ''http://localhost'' ''8080'' ''admin'' ''adminadmin''), Call AuthLogIn,
          PrintExc (APIError ''connection refused''),
          Log ERROR (ConnectFailed (APIError ''connection refused'')),
          Log ERROR InitialConnectFailed])"
proof -
  have l: "load_config demo_float demo_int Map.empty =
      Inr \<lparr>qbittorrent = demo_config [] [], scheduler = \<lparr>interval_minutes = 60\<rparr>\<rparr>"
    by (simp add: load_config_def demo_float_def demo_int_def getenv_def demo_config_def
        tag_list_def strip_def lower_def lower_char_def Let_def)
  have c: "c_url (qb_config (this \<lparr>this = QBittorrentAutoMate_init (demo_config [] []), world = w,
              trace = tr\<rparr>)) = Some ''http://localhost''"
    "c_username (qb_config (this \<lparr>this = QBittorrentAutoMate_init (demo_config [] []), world = w,
              trace = tr\<rparr>)) = Some ''admin''"
    "c_password (qb_config (this \<lparr>this = QBittorrentAutoMate_init (demo_config [] []), world = w,
              trace = tr\<rparr>)) = Some ''adminadmin''"
    "c_port (qb_config (this \<lparr>this = QBittorrentAutoMate_init (demo_config [] []), world = w,
              trace = tr\<rparr>)) = Some ''8080''" for w :: nat and tr
    by (simp_all add: QBittorrentAutoMate_init_def demo_config_def)
  have a: "fst (main demo_float demo_int (demo_api (Inr ()) (Inr []) []) Map.empty
          [SchedulerFault (APIError ''scheduler'')] 0) = Stopped"
    by (simp add: main_def l Let_def connect_configured [OF c] demo_api_def
        split: prod.split start_result.split)
  have b: "main demo_float demo_int (demo_api (Inl (APIError ''connection refused'')) (Inr []) []) Map.empty
          [IntervalElapsed] 0
      = (ConnectGivenUp,
         [Log INFO ServiceStarting, Log INFO (Connecting ''http://localhost'' ''8080'' ''admin''),
          Call (NewClient ''http://localhost'' ''8080'' ''admin'' ''adminadmin''), Call AuthLogIn,
          PrintExc (APIError ''connection refused''),
          Log ERROR (ConnectFailed (APIError ''connection refused'')),
          Log ERROR InitialConnectFailed])"
    by (simp add: main_def l Let_def connect_configured [OF c] demo_api_def)
  from a b show ?thesis by simp
qed

text \<open>
  C7, amended. Once the configuration is loaded and the first connection is reported
  successful, \<^verbatim>\<open>main\<close> registers the pass with the configured interval, runs exactly one pass
  before it starts the scheduler, and runs exactly one more pass for every elapsed interval
  that the scheduler reports until the first other event. It is still waiting inside the
  scheduler when every event was an elapsed interval, and stopped otherwise, that is after
  an interrupt or an exception of the scheduler itself. This holds for every behaviour of
  the service, so no failure inside a pass, of the listing or of a record, stops the
  loop. The length of the interval in real time is the scheduling library's business and
  is not represented.
\<close>

theorem scheduler_loop:
  assumes "load_config py_float py_int environ = Inr config"
    and "fst (connect_qbittorrent api
           \<lparr>this = QBittorrentAutoMate_init (qbittorrent config), world = w,
            trace = [Log INFO ServiceStarting]\<rparr>)"
  shows "fst (main py_float py_int api environ evs w) =
           (if \<forall>ev\<in>set evs. ev = IntervalElapsed then Waiting else Stopped)
    \<and> length (filter is_pass_start (snd (main py_float py_int api environ evs w))) =
        1 + length (takeWhile (\<lambda>ev. ev = IntervalElapsed) evs)
    \<and> (\<exists>pre post. snd (main py_float py_int api environ evs w) = pre @ Call SchedulerStart # post
          \<and> Call SchedulerStart \<notin> set pre
          \<and> length (filter is_pass_start pre) = 1
          \<and> Call (AddJob (interval_minutes (scheduler config))) \<in> set pre)"
proof -
  let ?c0 = "\<lparr>this = QBittorrentAutoMate_init (qbittorrent config), world = w,
            trace = [Log INFO ServiceStarting]\<rparr>"
  let ?iv = "interval_minutes (scheduler config)"
  obtain s1 where s1: "connect_qbittorrent api ?c0 = (True, s1)"
    using assms(2) by (cases "connect_qbittorrent api ?c0") auto
  from connect_frame [of api ?c0] s1
  obtain evc h where c: "trace s1 = [Log INFO ServiceStarting] @ evc" "list_all connect_event evc"
    "this s1 = (this ?c0)\<lparr>qb := h\<rparr>" "h \<noteq> None"
    by auto
  then obtain cl where q1: "qb (this s1) = Some cl" by auto
  let ?s2 = "emit (Log INFO FirstCheck) (emit (Call (AddJob ?iv)) s1)"
  have q2: "qb (this ?s2) = Some cl" using q1 by simp
  from cleanup_connected [OF q2, of api]
  obtain evp where p: "trace (cleanup_torrents api ?s2) =
      trace ?s2 @ Log INFO StartCheck # Call TorrentsInfo # evp"
    "list_all pass_event evp" "this (cleanup_torrents api ?s2) = this ?s2"
    by blast
  let ?s4 = "emit (Call SchedulerStart) (emit (Log INFO (ServiceStarted ?iv)) (cleanup_torrents api ?s2))"
  have q4: "qb (this ?s4) = Some cl" using q2 p(3) by simp
  obtain r s5 where r: "scheduler_start api evs ?s4 = (r, s5)"
    by (cases "scheduler_start api evs ?s4")
  from scheduler_start_connected [OF q4, of api evs] r
  obtain tr where t: "r = (case dropWhile (\<lambda>ev. ev = IntervalElapsed) evs of
              [] \<Rightarrow> Blocked
            | IntervalElapsed # _ \<Rightarrow> Blocked
            | KeyboardInterrupt # _ \<Rightarrow> Interrupted
            | SchedulerFault e # _ \<Rightarrow> Raised e)"
    "trace s5 = trace ?s4 @ tr"
    "length (filter is_pass_start tr) = length (takeWhile (\<lambda>ev. ev = IntervalElapsed) evs)"
    "Call SchedulerStart \<notin> set tr"
    by auto
  let ?pre = "[Log INFO ServiceStarting] @ evc @
      [Call (AddJob ?iv), Log INFO FirstCheck, Log INFO StartCheck, Call TorrentsInfo] @ evp @
      [Log INFO (ServiceStarted ?iv)]"
  have pre4: "trace ?s4 = ?pre @ [Call SchedulerStart]"
    using c(1) p(1) by simp
  have quiet_c: "filter is_pass_start evc = []" "Call SchedulerStart \<notin> set evc"
    using c(2) connect_event_quiet by (auto simp: list_all_iff filter_empty_conv)
  have quiet_p: "filter is_pass_start evp = []" "Call SchedulerStart \<notin> set evp"
    using p(2) pass_event_quiet by (auto simp: list_all_iff filter_empty_conv)
  have pre_ok: "Call SchedulerStart \<notin> set ?pre" "length (filter is_pass_start ?pre) = 1"
    "Call (AddJob ?iv) \<in> set ?pre"
    using quiet_c quiet_p by simp_all
  have m: "main py_float py_int api environ evs w =
      (case r of Blocked \<Rightarrow> (Waiting, trace s5)
       | Interrupted \<Rightarrow> (Stopped, trace s5 @ [Log INFO StopSignal, Call SchedulerShutdown])
       | Raised e \<Rightarrow> (Stopped, trace s5 @ [Log ERROR (SchedulerError e), Call SchedulerShutdown]))"
    using assms(1) s1 r by (simp add: main_def Let_def split: start_result.split)
  let ?n = "length (takeWhile (\<lambda>ev. ev = IntervalElapsed) evs)"
  have fin: "length (filter is_pass_start (snd (main py_float py_int api environ evs w))) = 1 + ?n
    \<and> (\<exists>pre post. snd (main py_float py_int api environ evs w) = pre @ Call SchedulerStart # post
          \<and> Call SchedulerStart \<notin> set pre
          \<and> length (filter is_pass_start pre) = 1
          \<and> Call (AddJob ?iv) \<in> set pre)"
    if "snd (main py_float py_int api environ evs w) = ?pre @ Call SchedulerStart # post"
      and "length (filter is_pass_start post) = ?n" for post
  proof (rule conjI)
    show "length (filter is_pass_start (snd (main py_float py_int api environ evs w))) = 1 + ?n"
      using that pre_ok(2) by simp
    show "\<exists>pre post. snd (main py_float py_int api environ evs w) = pre @ Call SchedulerStart # post
          \<and> Call SchedulerStart \<notin> set pre
          \<and> length (filter is_pass_start pre) = 1
          \<and> Call (AddJob ?iv) \<in> set pre"
      using that(1) pre_ok by (intro exI [of _ ?pre] exI [of _ post] conjI)
  qed
  show ?thesis
  proof (cases "dropWhile (\<lambda>ev. ev = IntervalElapsed) evs")
    case Nil
    then have all: "\<forall>ev\<in>set evs. ev = IntervalElapsed" by (simp add: dropWhile_all)
    have "main py_float py_int api environ evs w = (Waiting, ?pre @ Call SchedulerStart # tr)"
      using m t(1,2) Nil pre4 by simp
    then have "fst (main py_float py_int api environ evs w) = Waiting"
      and "snd (main py_float py_int api environ evs w) = ?pre @ Call SchedulerStart # tr"
      by simp_all
    with fin [of tr] t(3) all show ?thesis by simp
  next
    case (Cons ev rest)
    then have notall: "\<not> (\<forall>ev\<in>set evs. ev = IntervalElapsed)"
      using dropWhile_all [of "\<lambda>ev. ev = IntervalElapsed" evs] by simp
    have hd: "ev \<noteq> IntervalElapsed"
      using Cons hd_dropWhile [of "\<lambda>ev. ev = IntervalElapsed" evs] by auto
    then obtain tl where "main py_float py_int api environ evs w = (Stopped, ?pre @ Call SchedulerStart # tr @ tl)"
      "filter is_pass_start tl = []"
      using m t(1,2) Cons pre4 by (cases ev) auto
    then have "fst (main py_float py_int api environ evs w) = Stopped"
      and "snd (main py_float py_int api environ evs w) = ?pre @ Call SchedulerStart # (tr @ tl)"
      and "length (filter is_pass_start (tr @ tl)) = ?n"
      using t(3) by simp_all
    with fin [of "tr @ tl"] notall show ?thesis by simp
  qed
qed

theorem scheduler_loop_witness:
  "fst (main demo_float demo_int (demo_api (Inr ()) (Inl (APIError ''timed out'')) []) Map.empty
          [IntervalElapsed, IntervalElapsed] 0) = Waiting
   \<and> length (filter is_pass_start
        (snd (main demo_float demo_int (demo_api (Inr ()) (Inl (APIError ''timed out'')) []) Map.empty
          [IntervalElapsed, IntervalElapsed] 0))) = 3
   \<and> fst (main demo_float demo_int (demo_api (Inr ()) (Inl (APIError ''timed out'')) []) Map.empty
          [IntervalElapsed, KeyboardInterrupt, IntervalElapsed] 0) = Stopped
   \<and> length (filter is_pass_start
        (snd (main demo_float demo_int (demo_api (Inr ()) (Inl (APIError ''timed out'')) []) Map.empty
          [IntervalElapsed, KeyboardInterrupt, IntervalElapsed] 0))) = 2"
proof -
  let ?api = "demo_api (Inr ()) (Inl (APIError ''timed out'')) []"
  have l: "load_config demo_float demo_int Map.empty =
      Inr \<lparr>qbittorrent = demo_config [] [], scheduler = \<lparr>interval_minutes = 60\<rparr>\<rparr>"
    by (simp add: load_config_def demo_float_def demo_int_def getenv_def demo_config_def
        tag_list_def strip_def lower_def lower_char_def Let_def)
  have c: "fst (connect_qbittorrent ?api
           \<lparr>this = QBittorrentAutoMate_init (qbittorrent
               \<lparr>qbittorrent = demo_config [] [], scheduler = \<lparr>interval_minutes = 60\<rparr>\<rparr>),
            world = 0, trace = [Log INFO ServiceStarting]\<rparr>)"
    by (simp add: connect_configured [of _ "''http://localhost''" "''admin''" "''adminadmin''" "''8080''"]
        demo_api_def demo_config_def QBittorrentAutoMate_init_def)
  from scheduler_loop [OF l c, of "[IntervalElapsed, IntervalElapsed]"]
    scheduler_loop [OF l c, of "[IntervalElapsed, KeyboardInterrupt, IntervalElapsed]"]
  show ?thesis by simp
qed

end
